theory Spec2Isabelle
  imports Complex_Main "HOL-Library.Sublist" "HOL-Library.Multiset"
begin

section \<open>Values, tables and exceptions\<close>

text \<open>
  The analytics engine of \<^verbatim>\<open>backend/advanced_analytics.py\<close> works on pandas tables.
  A table cell is a number, a text, a timestamp or a missing value. Numbers are 64-bit
  floats in the source; the model computes with real numbers, so it describes the
  arithmetic the code asks for and not the rounding of each operation. \<open>Null\<close> stands
  for NaN, None and NaT. \<open>Infty\<close> stands for an infinity (\<open>Infty True\<close> is the positive
  one); it only arises from a division by zero in a growth column. Input tables are
  taken to hold finite numbers.
\<close>

datatype cell = Num (the_num: real) | Txt string | Stamp (the_stamp: int) | Infty bool | Null

type_synonym row = "string \<Rightarrow> cell"

text \<open>
  A table has its column labels in order and its rows; a row gives the cell under every
  label (\<open>Null\<close> under a label that is not a column).
\<close>

record frame =
  colnames :: "string list"
  rows :: "row list"

text \<open>
  Exceptions are values. Each carries the text that \<^verbatim>\<open>str(e)\<close> shows; for a
  \<open>KeyError\<close> that is the missing label in quotes. The wording of the library's own
  messages varies between library versions and is kept short here.
\<close>

datatype exn =
    KeyError string
  | TypeError string
  | ValueError string
  | AttributeError string
  | DataError string
  | NotFittedError string

definition str_exn :: "exn \<Rightarrow> string" where
  "str_exn e = (case e of
       KeyError k \<Rightarrow> [CHR 0x27] @ k @ [CHR 0x27]
     | TypeError m \<Rightarrow> m
     | ValueError m \<Rightarrow> m
     | AttributeError m \<Rightarrow> m
     | DataError m \<Rightarrow> m
     | NotFittedError m \<Rightarrow> m)"

subsection \<open>Strings\<close>

definition lower_char :: "char \<Rightarrow> char" where
  "lower_char c =
     (case map_of (zip ''ABCDEFGHIJKLMNOPQRSTUVWXYZ'' ''abcdefghijklmnopqrstuvwxyz'') c of
        Some d \<Rightarrow> d
      | None \<Rightarrow> c)"

definition lower :: "string \<Rightarrow> string" where
  "lower s = map lower_char s"

text \<open>\<open>contains s x\<close> is Python's \<^verbatim>\<open>x in s\<close> on strings.\<close>

primrec contains :: "string \<Rightarrow> string \<Rightarrow> bool" where
  "contains [] x = (x = [])"
| "contains (c # cs) x = (prefix x (c # cs) \<or> contains cs x)"

text \<open>\<^verbatim>\<open>any(x in f.lower() for x in keywords)\<close>\<close>

definition has_keyword :: "string \<Rightarrow> string list \<Rightarrow> bool" where
  "has_keyword f keywords = list_ex (\<lambda>x. contains (lower f) x) keywords"

subsection \<open>Numeric helpers\<close>

definition mean :: "real list \<Rightarrow> real" where
  "mean xs = sum_list xs / real (length xs)"

text \<open>\<^verbatim>\<open>np.std\<close>: the population standard deviation (\<^verbatim>\<open>ddof=0\<close>).\<close>

definition np_std :: "real list \<Rightarrow> real" where
  "np_std xs = sqrt (mean (map (\<lambda>x. (x - mean xs)\<^sup>2) xs))"

text \<open>
  \<^verbatim>\<open>Series.std\<close>: the sample standard deviation (\<^verbatim>\<open>ddof=1\<close>), NaN for fewer
  than two values.
\<close>

definition series_std :: "real list \<Rightarrow> cell" where
  "series_std xs =
     (if length xs < 2 then Null
      else Num (sqrt (sum_list (map (\<lambda>x. (x - mean xs)\<^sup>2) xs) / real (length xs - 1))))"

definition median :: "real list \<Rightarrow> real" where
  "median xs =
     (let s = sort xs; n = length s
      in if odd n then s ! (n div 2) else (s ! (n div 2 - 1) + s ! (n div 2)) / 2)"

text \<open>\<^verbatim>\<open>np.arange(n)\<close>\<close>

definition arange :: "nat \<Rightarrow> real list" where
  "arange n = map real [0..<n]"

text \<open>
  \<^verbatim>\<open>np.polyfit(x, y, 1)\<close> returns the coefficients \<open>(slope, intercept)\<close> of the
  least-squares line through the points. Both call sites pass at least two points with
  the distinct abscissae \<open>0, 1, 2, ...\<close>, where the line is the closed form below.
\<close>

definition polyfit1 :: "real list \<Rightarrow> real list \<Rightarrow> real \<times> real" where
  "polyfit1 x y =
     (let mx = mean x; my = mean y;
          sxy = sum_list (map2 (\<lambda>a b. (a - mx) * (b - my)) x y);
          sxx = sum_list (map (\<lambda>a. (a - mx)\<^sup>2) x);
          slope = sxy / sxx
      in (slope, my - slope * mx))"

text \<open>\<^verbatim>\<open>tail(n)\<close>: the last \<open>n\<close> entries; all but the first \<open>-n\<close> for a negative \<open>n\<close>.\<close>

definition tail :: "int \<Rightarrow> 'a list \<Rightarrow> 'a list" where
  "tail n xs = (if 0 \<le> n then drop (length xs - nat n) xs else drop (nat (- n)) xs)"

text \<open>
  \<^verbatim>\<open>rolling(window=w, min_periods=1).mean()\<close>: at every position the mean of the
  window that ends there, clipped at the start of the series.
\<close>

definition rolling_mean :: "nat \<Rightarrow> real list \<Rightarrow> real list" where
  "rolling_mean w xs = map (\<lambda>i. mean (tail (int w) (take (Suc i) xs))) [0..<length xs]"

text \<open>
  \<^verbatim>\<open>pct_change(periods=p)\<close> on a series without missing values: the quotient of each
  value by the value \<open>p\<close> places before it, minus one; NaN in the first \<open>p\<close> places. A
  float division by zero gives an infinity, or NaN for \<open>0 / 0\<close>.
\<close>

definition float_ratio_minus_one :: "real \<Rightarrow> real \<Rightarrow> cell" where
  "float_ratio_minus_one a b =
     (if b \<noteq> 0 then Num (a / b - 1)
      else if a = 0 then Null
      else Infty (0 < a))"

definition pct_change :: "nat \<Rightarrow> real list \<Rightarrow> cell list" where
  "pct_change p xs =
     map (\<lambda>i. if i < p then Null else float_ratio_minus_one (xs ! i) (xs ! (i - p)))
       [0..<length xs]"

text \<open>
  \<^verbatim>\<open>Series.mean()\<close> of a float column: missing values are skipped; the result is
  NaN when nothing is left or when both infinities occur.
\<close>

definition series_mean :: "cell list \<Rightarrow> cell" where
  "series_mean cs =
     (let vs = filter (\<lambda>c. c \<noteq> Null) cs
      in if vs = [] then Null
         else if Infty True \<in> set vs \<and> Infty False \<in> set vs then Null
         else if Infty True \<in> set vs then Infty True
         else if Infty False \<in> set vs then Infty False
         else Num (mean (map the_num vs)))"

text \<open>
  \<^verbatim>\<open>np.percentile(a, q)\<close> with the default linear interpolation between the two
  closest ranks.
\<close>

definition percentile :: "real list \<Rightarrow> real \<Rightarrow> real" where
  "percentile a q =
     (let s = sort a;
          pos = q / 100 * real (length s - 1);
          lo = nat \<lfloor>pos\<rfloor>;
          hi = min (Suc lo) (length s - 1)
      in s ! lo + (pos - real lo) * (s ! hi - s ! lo))"

text \<open>
  \<^verbatim>\<open>dt.dayofweek\<close> of a timestamp counted in nanoseconds since 1970-01-01 (a
  Thursday); Monday is 0.
\<close>

definition dayofweek :: "int \<Rightarrow> nat" where
  "dayofweek t = nat ((t div 86400000000000 + 3) mod 7)"

subsection \<open>Table operations\<close>

text \<open>\<^verbatim>\<open>df[c]\<close> for one label.\<close>

definition getitem :: "frame \<Rightarrow> string \<Rightarrow> exn + cell list" where
  "getitem df c =
     (if c \<in> set (colnames df) then Inr (map (\<lambda>r. r c) (rows df)) else Inl (KeyError c))"

text \<open>\<^verbatim>\<open>df[cs]\<close> for a list of labels: a new table with these columns.\<close>

definition getitem_list :: "frame \<Rightarrow> string list \<Rightarrow> exn + frame" where
  "getitem_list df cs =
     (case filter (\<lambda>c. c \<notin> set (colnames df)) cs of
        [] \<Rightarrow> Inr (df\<lparr>colnames := cs\<rparr>)
      | c # _ \<Rightarrow> Inl (KeyError c))"

text \<open>
  \<^verbatim>\<open>df[c] = series\<close> where the series was computed from \<open>df\<close> itself, so it has one
  entry per row: the column is replaced, or appended when the label is new.
\<close>

definition setcol :: "frame \<Rightarrow> string \<Rightarrow> cell list \<Rightarrow> frame" where
  "setcol df c vs =
     \<lparr>colnames = (if c \<in> set (colnames df) then colnames df else colnames df @ [c]),
      rows = map2 (\<lambda>r v. r(c := v)) (rows df) vs\<rparr>"

text \<open>\<^verbatim>\<open>df[c] = array\<close> for an array from elsewhere: its length has to fit.\<close>

definition setitem :: "frame \<Rightarrow> string \<Rightarrow> cell list \<Rightarrow> exn + frame" where
  "setitem df c vs =
     (if length vs \<noteq> length (rows df)
      then Inl (ValueError ''Length of values does not match length of index'')
      else Inr (setcol df c vs))"

text \<open>\<^verbatim>\<open>df.dropna(subset=cs)\<close>\<close>

definition dropna :: "frame \<Rightarrow> string list \<Rightarrow> exn + frame" where
  "dropna df cs =
     (case filter (\<lambda>c. c \<notin> set (colnames df)) cs of
        [] \<Rightarrow> Inr (df\<lparr>rows := filter (\<lambda>r. list_all (\<lambda>c. r c \<noteq> Null) cs) (rows df)\<rparr>)
      | c # _ \<Rightarrow> Inl (KeyError c))"

text \<open>
  A numeric read of a column (\<^verbatim>\<open>rolling\<close>, \<^verbatim>\<open>pct_change\<close>, \<^verbatim>\<open>np.polyfit\<close>,
  a group mean): pandas and numpy refuse text and timestamps. The model also refuses a
  column that holds a missing or infinite entry; the value column holds none after
  \<^verbatim>\<open>dropna\<close> unless it is itself one of the growth columns that the code writes.
\<close>

definition numeric_column :: "frame \<Rightarrow> string \<Rightarrow> exn + real list" where
  "numeric_column df c =
     (case getitem df c of
        Inl e \<Rightarrow> Inl e
      | Inr cs \<Rightarrow>
          if list_all is_Num cs then Inr (map the_num cs)
          else Inl (DataError ''No numeric types to aggregate''))"

text \<open>\<^verbatim>\<open>df[c].dt.dayofweek\<close>: only a column of timestamps has the accessor.\<close>

definition dt_dayofweek :: "frame \<Rightarrow> string \<Rightarrow> exn + nat list" where
  "dt_dayofweek df c =
     (case getitem df c of
        Inl e \<Rightarrow> Inl e
      | Inr cs \<Rightarrow>
          if list_all is_Stamp cs then Inr (map (\<lambda>x. dayofweek (the_stamp x)) cs)
          else Inl (AttributeError ''Can only use .dt accessor with datetimelike values''))"

text \<open>
  \<^verbatim>\<open>select_dtypes(include=[np.number])\<close>: the columns of a numeric type. A table
  of the model carries no column types; a column counts as numeric when it holds only
  numbers and missing values. pandas goes by the type it gave the column: a column of
  nothing but \<^verbatim>\<open>None\<close> has the type \<^verbatim>\<open>object\<close> and is left out there, and a float
  column holding an infinity is kept there.
\<close>

definition is_numeric_column :: "frame \<Rightarrow> string \<Rightarrow> bool" where
  "is_numeric_column df c = list_all (\<lambda>r. is_Num (r c) \<or> r c = Null) (rows df)"

definition select_numeric :: "frame \<Rightarrow> frame" where
  "select_numeric df = df\<lparr>colnames := filter (is_numeric_column df) (colnames df)\<rparr>"

text \<open>\<^verbatim>\<open>df.empty\<close>: no column or no row.\<close>

definition empty_frame :: "frame \<Rightarrow> bool" where
  "empty_frame df = (colnames df = [] \<or> rows df = [])"

text \<open>\<^verbatim>\<open>df.fillna(df.mean())\<close> on numeric columns.\<close>

definition fillna_mean :: "frame \<Rightarrow> frame" where
  "fillna_mean df =
     df\<lparr>rows := map (\<lambda>r c. if c \<in> set (colnames df) \<and> r c = Null
                             then series_mean (map (\<lambda>r'. r' c) (rows df)) else r c) (rows df)\<rparr>"

text \<open>The values of a table as a matrix, row by row.\<close>

type_synonym matrix = "cell list list"

definition to_matrix :: "frame \<Rightarrow> matrix" where
  "to_matrix df = map (\<lambda>r. map r (colnames df)) (rows df)"

text \<open>\<^verbatim>\<open>df.to_dict('records')\<close>\<close>

definition to_records :: "frame \<Rightarrow> (string \<times> cell) list list" where
  "to_records df = map (\<lambda>r. map (\<lambda>c. (c, r c)) (colnames df)) (rows df)"

text \<open>
  \<^verbatim>\<open>df.nlargest(n, c)\<close> on a numeric column: the \<open>n\<close> rows with the largest values,
  largest first; among equal values the earlier row comes first.
\<close>

definition nlargest :: "nat \<Rightarrow> string \<Rightarrow> frame \<Rightarrow> frame" where
  "nlargest n c df = df\<lparr>rows := take n (sort_key (\<lambda>r. - the_num (r c)) (rows df))\<rparr>"


text \<open>A column that is known to be there, as a list.\<close>

definition column :: "frame \<Rightarrow> string \<Rightarrow> cell list" where
  "column df c = map (\<lambda>r. r c) (rows df)"

section \<open>The libraries and the engine's state\<close>

text \<open>
  pandas' parsers, Python's number formatting and the scikit-learn estimators are not
  code of the repository. The engine is modelled over any library \<open>L\<close> that provides
  them as functions of their arguments: date and number parsing, the scaler, the
  isolation forest, k-means, and the order in which the sort leaves rows of equal keys.
  An estimator's \<^verbatim>\<open>fit\<close> gets its hyper-parameters,
  its integer seed (\<^verbatim>\<open>random_state\<close>) and the data, and may refuse them with an
  exception.
\<close>

record ('sc, 'fo, 'km) library =
  parse_datetime :: "cell \<Rightarrow> int option"
  parse_numeric :: "string \<Rightarrow> real option"
  format_2f :: "real \<Rightarrow> string"
  round_1 :: "real \<Rightarrow> real"
  scaler_fit :: "matrix \<Rightarrow> exn + 'sc"
  scaler_transform :: "'sc \<Rightarrow> matrix \<Rightarrow> matrix"
  forest_fit :: "real \<Rightarrow> int \<Rightarrow> matrix \<Rightarrow> exn + 'fo"
  forest_decision :: "'fo \<Rightarrow> matrix \<Rightarrow> real list"
  kmeans_fit :: "int \<Rightarrow> int \<Rightarrow> matrix \<Rightarrow> exn + 'km"
  kmeans_labels :: "'km \<Rightarrow> int list"
  kmeans_centers :: "'km \<Rightarrow> real list list"
  kmeans_inertia :: "'km \<Rightarrow> real"
  quicksort_rank :: "int list \<Rightarrow> nat \<Rightarrow> nat"

text \<open>\<^verbatim>\<open>pd.to_datetime(..., errors='coerce')\<close> on one cell.\<close>

definition to_datetime :: "('sc, 'fo, 'km) library \<Rightarrow> cell \<Rightarrow> cell" where
  "to_datetime L c =
     (case c of
        Stamp t \<Rightarrow> Stamp t
      | Null \<Rightarrow> Null
      | _ \<Rightarrow> (case parse_datetime L c of Some t \<Rightarrow> Stamp t | None \<Rightarrow> Null))"

text \<open>\<^verbatim>\<open>pd.to_numeric(..., errors='coerce')\<close> on one cell; \<open>None\<close> is NaN.\<close>

definition to_numeric :: "('sc, 'fo, 'km) library \<Rightarrow> cell \<Rightarrow> real option" where
  "to_numeric L c =
     (case c of
        Num x \<Rightarrow> Some x
      | Txt s \<Rightarrow> parse_numeric L s
      | Stamp t \<Rightarrow> Some (real_of_int t)
      | _ \<Rightarrow> None)"

text \<open>
  \<^verbatim>\<open>df.sort_values(c)\<close> on a column of timestamps. pandas sorts with numpy's
  quicksort unless another kind is asked for, and that sort is not stable: rows with equal
  timestamps come out in an order that the library derives from the array of keys. Its
  choice is the number \<open>quicksort_rank L keys i\<close> for the position \<open>i\<close> of the array
  \<open>keys\<close>. The rows are ordered by their timestamps, rows of equal timestamps by that
  number, and rows that agree in both by their position. Whatever the library chooses,
  the result holds the rows of the table in the order of their timestamps.
\<close>

definition sort_values :: "('sc, 'fo, 'km) library \<Rightarrow> frame \<Rightarrow> string \<Rightarrow> frame" where
  "sort_values L df c =
     (let keys = map (\<lambda>r. the_stamp (r c)) (rows df);
          ranked = zip (map (quicksort_rank L keys) [0..<length (rows df)]) (rows df);
          by_rank = map snd (sort_key fst ranked)
      in df\<lparr>rows := sort_key (\<lambda>r. the_stamp (r c)) by_rank\<rparr>)"

text \<open>
  The state of the program: the tables that exist, each under its address, and the one
  global \<^verbatim>\<open>AdvancedAnalytics\<close> instance with its three estimator objects. An
  estimator keeps its hyper-parameters and, once fitted, what it learned. A table that
  the code writes into (\<^verbatim>\<open>t[c] = ...\<close>) lives in the store, so that a write through
  one name is seen through every other name of the same table; a table that is only read
  is passed as a value.
\<close>

record ('sc, 'fo, 'km) world =
  heap :: "nat \<Rightarrow> frame"
  nxt :: nat
  scaler :: "'sc option"
  detector_contamination :: real
  detector_random_state :: int
  detector :: "'fo option"
  segmenter_n_clusters :: int
  segmenter_random_state :: int
  segmenter :: "'km option"

text \<open>\<^verbatim>\<open>AdvancedAnalytics.__init__\<close>\<close>

definition init :: "('sc, 'fo, 'km) world \<Rightarrow> ('sc, 'fo, 'km) world" where
  "init w = w\<lparr>scaler := None,
              detector_contamination := 0.1, detector_random_state := 42, detector := None,
              segmenter_n_clusters := 4, segmenter_random_state := 42, segmenter := None\<rparr>"

text \<open>A new table object (\<^verbatim>\<open>df.copy()\<close>, or the result of an operation).\<close>

definition alloc :: "('sc, 'fo, 'km) world \<Rightarrow> frame \<Rightarrow> nat \<times> ('sc, 'fo, 'km) world" where
  "alloc w f = (nxt w, w\<lparr>heap := (heap w)(nxt w := f), nxt := Suc (nxt w)\<rparr>)"

text \<open>A write into the table at an address.\<close>

definition store :: "('sc, 'fo, 'km) world \<Rightarrow> nat \<Rightarrow> frame \<Rightarrow> ('sc, 'fo, 'km) world" where
  "store w a f = w\<lparr>heap := (heap w)(a := f)\<rparr>"

text \<open>\<^verbatim>\<open>self.scaler.fit_transform(X)\<close>: fit, keep what was learned, transform with it.\<close>

definition fit_transform ::
  "('sc, 'fo, 'km) library \<Rightarrow> ('sc, 'fo, 'km) world \<Rightarrow> matrix
     \<Rightarrow> (exn + matrix) \<times> ('sc, 'fo, 'km) world" where
  "fit_transform L w X =
     (case scaler_fit L X of
        Inl e \<Rightarrow> (Inl e, w)
      | Inr sc \<Rightarrow>
          (let w1 = w\<lparr>scaler := Some sc\<rparr>
           in case scaler w1 of
                None \<Rightarrow> (Inl (NotFittedError ''StandardScaler''), w1)
              | Some sc' \<Rightarrow> (Inr (scaler_transform L sc' X), w1)))"

text \<open>
  \<^verbatim>\<open>self.anomaly_detector.decision_function(X)\<close> reads the fitted forest. The lower a
  score, the more abnormal the row; \<^verbatim>\<open>predict\<close> labels a row \<open>-1\<close> (outlier) when its
  score is negative and \<open>1\<close> otherwise, and \<^verbatim>\<open>fit_predict\<close> is \<^verbatim>\<open>fit\<close> followed by
  \<^verbatim>\<open>predict\<close>.
\<close>

definition decision_function ::
  "('sc, 'fo, 'km) library \<Rightarrow> ('sc, 'fo, 'km) world \<Rightarrow> matrix \<Rightarrow> exn + real list" where
  "decision_function L w X =
     (case detector w of
        None \<Rightarrow> Inl (NotFittedError ''IsolationForest'')
      | Some fo \<Rightarrow> Inr (forest_decision L fo X))"

definition predict ::
  "('sc, 'fo, 'km) library \<Rightarrow> ('sc, 'fo, 'km) world \<Rightarrow> matrix \<Rightarrow> exn + int list" where
  "predict L w X =
     (case decision_function L w X of
        Inl e \<Rightarrow> Inl e
      | Inr scores \<Rightarrow> Inr (map (\<lambda>s. if s < 0 then - 1 else 1) scores))"

definition fit_predict ::
  "('sc, 'fo, 'km) library \<Rightarrow> ('sc, 'fo, 'km) world \<Rightarrow> matrix
     \<Rightarrow> (exn + int list) \<times> ('sc, 'fo, 'km) world" where
  "fit_predict L w X =
     (case forest_fit L (detector_contamination w) (detector_random_state w) X of
        Inl e \<Rightarrow> (Inl e, w)
      | Inr fo \<Rightarrow> (let w1 = w\<lparr>detector := Some fo\<rparr> in (predict L w1 X, w1)))"

text \<open>\<^verbatim>\<open>self.segmentation_model.fit_predict(X)\<close>: fit, keep the model, return its labels.\<close>

definition kmeans_fit_predict ::
  "('sc, 'fo, 'km) library \<Rightarrow> ('sc, 'fo, 'km) world \<Rightarrow> matrix
     \<Rightarrow> (exn + int list) \<times> ('sc, 'fo, 'km) world" where
  "kmeans_fit_predict L w X =
     (case kmeans_fit L (segmenter_n_clusters w) (segmenter_random_state w) X of
        Inl e \<Rightarrow> (Inl e, w)
      | Inr km \<Rightarrow> (Inr (kmeans_labels L km), w\<lparr>segmenter := Some km\<rparr>))"


section \<open>Results\<close>

text \<open>
  Every operation returns a dictionary: a result with the fields below, or
  \<^verbatim>\<open>{"error": text}\<close>. A float field that can be NaN or infinite is a \<open>cell\<close>.
\<close>

record trend_result =
  trend_direction :: string
  trend_strength :: string
  growth_rate_7d :: cell
  growth_rate_30d :: cell
  seasonality_score :: cell
  moving_average_7_day :: cell
  moving_average_30_day :: cell
  data_points :: nat

record anomaly_result =
  total_records :: nat
  anomaly_count :: nat
  anomaly_percentage :: real
  anomaly_threshold :: real
  top_anomalies :: "(string \<times> cell) list list"
  anomaly_scores_mean :: real
  anomaly_scores_std :: real
  anomaly_scores_min :: real
  anomaly_scores_max :: real

record feature_stats =
  stats_mean :: real
  stats_median :: real
  stats_std :: cell

text \<open>
  One entry of \<^verbatim>\<open>cluster_analysis\<close>: the dictionary with the three keys
  \<^verbatim>\<open>"size"\<close>, \<^verbatim>\<open>"percentage"\<close> and \<^verbatim>\<open>"characteristics"\<close>.
\<close>

record cluster_info =
  cluster_size :: nat
  percentage :: real
  characteristics :: "string \<rightharpoonup> feature_stats"

record cluster_detail =
  detail_size :: nat
  detail_percentage :: real
  detail_characteristics :: string
  detail_type :: string

text \<open>The key \<^verbatim>\<open>cluster_<id>\<close> of \<^verbatim>\<open>cluster_analysis\<close> is kept as the number \<open>id\<close>.\<close>

record segmentation_result =
  n_clusters :: int
  cluster_analysis :: "(nat \<times> cluster_info) list"
  cluster_details :: "cluster_detail list"
  cluster_centers :: "real list list"
  total_customers :: nat
  features_used :: "string list"
  segmentation_quality :: real
  business_insights :: "string list"

datatype icon = Money_bag | Calendar | Package | Banknote | Cart | Bar_chart

record strong_correlation =
  variable1 :: string
  variable2 :: string
  correlation :: real
  strength :: string
  variable1_display :: "icon \<times> string"
  variable2_display :: "icon \<times> string"
  interpretation_text :: string

record correlation_result =
  correlation_matrix :: "(string \<times> (string \<times> cell) list) list"
  strong_correlations :: "strong_correlation list"
  variables_analyzed :: nat
  total_variables :: nat
  strong_correlations_count :: nat
  mean_correlation :: cell

record forecast_point =
  period :: nat
  forecast :: real
  lower_bound :: real
  upper_bound :: real

record forecast_result =
  forecast_periods :: int
  trend_slope :: real
  forecast_trend_direction :: string
  confidence_interval :: real
  forecast_data :: "forecast_point list"
  last_actual_value :: real
  forecast_accuracy :: string

datatype payload =
    Error string
  | Trend trend_result
  | Anomaly anomaly_result
  | Segmentation segmentation_result
  | Correlation correlation_result
  | Forecast forecast_result

text \<open>
  \<^verbatim>\<open>try: ... except Exception as e: return {"error": f"<label>{str(e)}"}\<close> around a
  whole method body: what the body raises comes back as an error result.
\<close>

definition try_except ::
  "string \<Rightarrow> (exn + payload) \<times> 'w \<Rightarrow> (exn + payload) \<times> 'w" where
  "try_except label outcome =
     (case outcome of
        (Inl e, w) \<Rightarrow> (Inr (Error (label @ str_exn e)), w)
      | (Inr p, w) \<Rightarrow> (Inr p, w))"

section \<open>Trend detection and forecasting\<close>

text \<open>Sequencing: an exception ends the computation.\<close>

definition and_then :: "exn + 'a \<Rightarrow> ('a \<Rightarrow> exn + 'b) \<Rightarrow> exn + 'b" where
  "and_then m f = (case m of Inl e \<Rightarrow> Inl e | Inr x \<Rightarrow> f x)"

text \<open>
  \<^verbatim>\<open>df_copy[date_column] = pd.to_datetime(df_copy[date_column], errors='coerce')\<close>:
  the table that the assignment leaves.
\<close>

definition parse_dates ::
  "('sc, 'fo, 'km) library \<Rightarrow> frame \<Rightarrow> string \<Rightarrow> exn + frame" where
  "parse_dates L df_copy date_column =
     (case getitem df_copy date_column of
        Inl e \<Rightarrow> Inl e
      | Inr dates \<Rightarrow> Inr (setcol df_copy date_column (map (to_datetime L) dates)))"

text \<open>
  \<^verbatim>\<open>df_copy[name] = f(df_copy[value_column])\<close> for a numeric \<open>f\<close>: the value column
  is read from the table as it is at that moment, and the result is written under
  \<open>name\<close>.
\<close>

definition derive_column ::
  "frame \<Rightarrow> string \<Rightarrow> (real list \<Rightarrow> cell list) \<Rightarrow> string \<Rightarrow> exn + frame" where
  "derive_column df_copy name f value_column =
     (case numeric_column df_copy value_column of
        Inl e \<Rightarrow> Inl e
      | Inr v \<Rightarrow> Inr (setcol df_copy name (f v)))"

text \<open>
  The four assignments of \<^verbatim>\<open>detect_trends\<close> that add the moving averages and the
  growth rates, one after the other, and the table they leave.
\<close>

definition trend_columns :: "frame \<Rightarrow> string \<Rightarrow> exn + frame" where
  "trend_columns df_copy value_column =
     and_then (derive_column df_copy ''MA_7'' (\<lambda>v. map Num (rolling_mean 7 v)) value_column)
       (\<lambda>t1.
     and_then (derive_column t1 ''MA_30'' (\<lambda>v. map Num (rolling_mean 30 v)) value_column)
       (\<lambda>t2.
     and_then (derive_column t2 ''Daily_Growth'' (pct_change 1) value_column)
       (\<lambda>t3.
     derive_column t3 ''Weekly_Growth'' (pct_change 7) value_column)))"

text \<open>
  \<^verbatim>\<open>df_copy.groupby(df_copy[date_column].dt.dayofweek)[value_column].mean()\<close>: the mean
  value of every weekday that occurs, in weekday order.
\<close>

definition weekly_avg :: "nat list \<Rightarrow> real list \<Rightarrow> real list" where
  "weekly_avg days ys =
     map (\<lambda>d. mean (map snd (filter (\<lambda>(k, y). k = d) (zip days ys))))
       (filter (\<lambda>d. d \<in> set days) [0..<7])"

definition seasonality :: "real list \<Rightarrow> cell" where
  "seasonality wa =
     (if mean wa > 0
      then (case series_std wa of Num s \<Rightarrow> Num (s / mean wa) | _ \<Rightarrow> Null)
      else Num 0)"

text \<open>
  The rest of \<^verbatim>\<open>detect_trends\<close>, from \<^verbatim>\<open>recent_data = df_copy.tail(window_days)\<close>
  on: it only reads the table. The table has at least two rows there, so
  \<^verbatim>\<open>iloc[-1]\<close> finds a last entry.
\<close>

definition trend_summary :: "frame \<Rightarrow> string \<Rightarrow> string \<Rightarrow> int \<Rightarrow> exn + payload" where
  "trend_summary df_copy date_column value_column window_days =
     (let recent_data = df_copy\<lparr>rows := tail window_days (rows df_copy)\<rparr>
      in if length (rows recent_data) > 1
         then
           (case numeric_column recent_data value_column of
              Inl e \<Rightarrow> Inl e
            | Inr y \<Rightarrow>
           (case dt_dayofweek df_copy date_column of
              Inl e \<Rightarrow> Inl e
            | Inr days \<Rightarrow>
           (case numeric_column df_copy value_column of
              Inl e \<Rightarrow> Inl e
            | Inr v \<Rightarrow>
              let slope = fst (polyfit1 (arange (length (rows recent_data))) y)
              in Inr (Trend
                   \<lparr>trend_direction = (if slope > 0 then ''increasing'' else ''decreasing''),
                    trend_strength = (if \<bar>slope\<bar> > np_std y then ''strong'' else ''moderate''),
                    growth_rate_7d = series_mean (tail 7 (column df_copy ''Weekly_Growth'')),
                    growth_rate_30d = series_mean (tail 30 (column df_copy ''Daily_Growth'')),
                    seasonality_score = seasonality (weekly_avg days v),
                    moving_average_7_day = last (column df_copy ''MA_7''),
                    moving_average_30_day = last (column df_copy ''MA_30''),
                    data_points = length (rows df_copy)\<rparr>))))
         else Inr (Error ''Insufficient recent data for trend analysis''))"

text \<open>
  \<^verbatim>\<open>detect_trends\<close>. The working table \<^verbatim>\<open>df_copy\<close> is a new object in the store;
  \<^verbatim>\<open>dropna\<close> and \<^verbatim>\<open>sort_values\<close> each return a new object that the name is bound to
  next. The assignments write into the object the name is bound to at that point.
\<close>

definition detect_trends_body ::
  "('sc, 'fo, 'km) library \<Rightarrow> ('sc, 'fo, 'km) world \<Rightarrow> nat \<Rightarrow> string \<Rightarrow> string \<Rightarrow> int
     \<Rightarrow> (exn + payload) \<times> ('sc, 'fo, 'km) world" where
  "detect_trends_body L w df date_column value_column window_days =
     (let (c1, w1) = alloc w (heap w df)
      in case parse_dates L (heap w1 c1) date_column of
           Inl e \<Rightarrow> (Inl e, w1)
         | Inr parsed \<Rightarrow>
      let w2 = store w1 c1 parsed
      in case dropna (heap w2 c1) [date_column, value_column] of
           Inl e \<Rightarrow> (Inl e, w2)
         | Inr valid \<Rightarrow>
      let (c2, w3) = alloc w2 valid
      in if length (rows (heap w3 c2)) < 2
         then (Inr (Error ''Insufficient data for trend analysis''), w3)
         else
           let (c3, w4) = alloc w3 (sort_values L (heap w3 c2) date_column)
           in case trend_columns (heap w4 c3) value_column of
                Inl e \<Rightarrow> (Inl e, w4)
              | Inr extended \<Rightarrow>
           let w5 = store w4 c3 extended
           in (trend_summary (heap w5 c3) date_column value_column window_days, w5))"

definition detect_trends ::
  "('sc, 'fo, 'km) library \<Rightarrow> ('sc, 'fo, 'km) world \<Rightarrow> nat \<Rightarrow> string \<Rightarrow> string \<Rightarrow> int
     \<Rightarrow> (exn + payload) \<times> ('sc, 'fo, 'km) world" where
  "detect_trends L w df date_column value_column window_days =
     try_except ''Trend analysis failed: ''
       (detect_trends_body L w df date_column value_column window_days)"

text \<open>The two assignments of \<^verbatim>\<open>generate_forecast\<close> that add moving averages.\<close>

definition forecast_columns :: "frame \<Rightarrow> string \<Rightarrow> exn + frame" where
  "forecast_columns df_copy value_column =
     and_then (derive_column df_copy ''MA_7'' (\<lambda>v. map Num (rolling_mean 7 v)) value_column)
       (\<lambda>t1. derive_column t1 ''MA_14'' (\<lambda>v. map Num (rolling_mean 14 v)) value_column)"

text \<open>
  The fit and the forecast from \<^verbatim>\<open>recent_values\<close>, the last 14 values. For
  \<^verbatim>\<open>periods\<close> at most 0 the range of future positions is empty.
\<close>

definition extrapolate :: "real list \<Rightarrow> int \<Rightarrow> forecast_result" where
  "extrapolate recent_values periods =
     (let x = arange (length recent_values);
          slope = fst (polyfit1 x recent_values);
          intercept = snd (polyfit1 x recent_values);
          future_x = map real [length recent_values ..< length recent_values + nat periods];
          forecast_values = map (\<lambda>fx. slope * fx + intercept) future_x;
          std_error = np_std (map2 (\<lambda>v xi. v - (slope * xi + intercept)) recent_values x);
          interval = 1.96 * std_error
      in \<lparr>forecast_periods = periods,
          trend_slope = slope,
          forecast_trend_direction = (if slope > 0 then ''increasing'' else ''decreasing''),
          confidence_interval = interval,
          forecast_data =
            map (\<lambda>(i, v). \<lparr>period = i + 1, forecast = v,
                            lower_bound = v - interval, upper_bound = v + interval\<rparr>)
              (enumerate 0 forecast_values),
          last_actual_value = last recent_values,
          forecast_accuracy = ''moderate''\<rparr>)"

definition forecast_summary :: "frame \<Rightarrow> string \<Rightarrow> int \<Rightarrow> exn + payload" where
  "forecast_summary df_copy value_column periods =
     (case numeric_column df_copy value_column of
        Inl e \<Rightarrow> Inl e
      | Inr v \<Rightarrow>
          let recent_values = tail 14 v
          in if length recent_values \<ge> 2
             then Inr (Forecast (extrapolate recent_values periods))
             else Inr (Error ''Insufficient recent data for forecasting''))"

definition generate_forecast_body ::
  "('sc, 'fo, 'km) library \<Rightarrow> ('sc, 'fo, 'km) world \<Rightarrow> nat \<Rightarrow> string \<Rightarrow> string \<Rightarrow> int
     \<Rightarrow> (exn + payload) \<times> ('sc, 'fo, 'km) world" where
  "generate_forecast_body L w df date_column value_column periods =
     (let (c1, w1) = alloc w (heap w df)
      in case parse_dates L (heap w1 c1) date_column of
           Inl e \<Rightarrow> (Inl e, w1)
         | Inr parsed \<Rightarrow>
      let w2 = store w1 c1 parsed
      in case dropna (heap w2 c1) [date_column, value_column] of
           Inl e \<Rightarrow> (Inl e, w2)
         | Inr valid \<Rightarrow>
      let (c2, w3) = alloc w2 valid
      in if length (rows (heap w3 c2)) < 10
         then (Inr (Error
                 ''Insufficient data for forecasting (minimum 10 data points required)''), w3)
         else
           let (c3, w4) = alloc w3 (sort_values L (heap w3 c2) date_column)
           in case forecast_columns (heap w4 c3) value_column of
                Inl e \<Rightarrow> (Inl e, w4)
              | Inr extended \<Rightarrow>
           let w5 = store w4 c3 extended
           in (forecast_summary (heap w5 c3) value_column periods, w5))"

definition generate_forecast ::
  "('sc, 'fo, 'km) library \<Rightarrow> ('sc, 'fo, 'km) world \<Rightarrow> nat \<Rightarrow> string \<Rightarrow> string \<Rightarrow> int
     \<Rightarrow> (exn + payload) \<times> ('sc, 'fo, 'km) world" where
  "generate_forecast L w df date_column value_column periods =
     try_except ''Forecasting failed: ''
       (generate_forecast_body L w df date_column value_column periods)"

section \<open>Anomaly detection\<close>

text \<open>\<^verbatim>\<open>df[columns].select_dtypes(include=[np.number])\<close>\<close>

definition numeric_selection :: "frame \<Rightarrow> string list \<Rightarrow> exn + frame" where
  "numeric_selection df columns =
     (case getitem_list df columns of
        Inl e \<Rightarrow> Inl e
      | Inr selected \<Rightarrow> Inr (select_numeric selected))"

text \<open>\<^verbatim>\<open>df[mask]\<close> for an array of truth values: it needs one entry per row.\<close>

definition boolean_index :: "frame \<Rightarrow> bool list \<Rightarrow> exn + frame" where
  "boolean_index df keep =
     (if length keep \<noteq> length (rows df) then Inl (ValueError ''Item wrong length'')
      else Inr (df\<lparr>rows := map fst (filter snd (zip (rows df) keep))\<rparr>))"

text \<open>
  The result dictionary of \<^verbatim>\<open>detect_anomalies\<close>, from the input table, the table of
  the rows labelled \<open>-1\<close> with their scores, and the scores of all rows.
\<close>

definition anomaly_report :: "frame \<Rightarrow> frame \<Rightarrow> real list \<Rightarrow> anomaly_result" where
  "anomaly_report df anomalies anomaly_scores =
     \<lparr>total_records = length (rows df),
      anomaly_count = length (rows anomalies),
      anomaly_percentage = real (length (rows anomalies)) / real (length (rows df)) * 100,
      anomaly_threshold = percentile anomaly_scores 90,
      top_anomalies = to_records (nlargest 5 ''anomaly_score'' anomalies),
      anomaly_scores_mean = mean anomaly_scores,
      anomaly_scores_std = np_std anomaly_scores,
      anomaly_scores_min = fold min (tl anomaly_scores) (hd anomaly_scores),
      anomaly_scores_max = fold max (tl anomaly_scores) (hd anomaly_scores)\<rparr>"

definition detect_anomalies_body ::
  "('sc, 'fo, 'km) library \<Rightarrow> ('sc, 'fo, 'km) world \<Rightarrow> nat \<Rightarrow> string list \<Rightarrow> real
     \<Rightarrow> (exn + payload) \<times> ('sc, 'fo, 'km) world" where
  "detect_anomalies_body L w df columns contamination =
     (case numeric_selection (heap w df) columns of
        Inl e \<Rightarrow> (Inl e, w)
      | Inr numeric_data \<Rightarrow>
      if empty_frame numeric_data
      then (Inr (Error ''No numeric columns found for anomaly detection''), w)
      else
        case fit_transform L w (to_matrix (fillna_mean numeric_data)) of
          (Inl e, w1) \<Rightarrow> (Inl e, w1)
        | (Inr scaled_data, w1) \<Rightarrow>
        case fit_predict L (w1\<lparr>detector_contamination := contamination\<rparr>) scaled_data of
          (Inl e, w3) \<Rightarrow> (Inl e, w3)
        | (Inr anomaly_labels, w3) \<Rightarrow>
        case decision_function L w3 scaled_data of
          Inl e \<Rightarrow> (Inl e, w3)
        | Inr anomaly_scores \<Rightarrow>
        case boolean_index (heap w3 df) (map (\<lambda>l. l = - 1) anomaly_labels) of
          Inl e \<Rightarrow> (Inl e, w3)
        | Inr flagged \<Rightarrow>
        let (anomalies, w4) = alloc w3 flagged
        in case setitem (heap w4 anomalies) ''anomaly_score''
                  (map (Num \<circ> fst)
                     (filter snd (zip anomaly_scores (map (\<lambda>l. l = - 1) anomaly_labels)))) of
             Inl e \<Rightarrow> (Inl e, w4)
           | Inr scored \<Rightarrow>
        let w5 = store w4 anomalies scored
        in (Inr (Anomaly (anomaly_report (heap w5 df) (heap w5 anomalies) anomaly_scores)), w5))"

definition detect_anomalies ::
  "('sc, 'fo, 'km) library \<Rightarrow> ('sc, 'fo, 'km) world \<Rightarrow> nat \<Rightarrow> string list \<Rightarrow> real
     \<Rightarrow> (exn + payload) \<times> ('sc, 'fo, 'km) world" where
  "detect_anomalies L w df columns contamination =
     try_except ''Anomaly detection failed: ''
       (detect_anomalies_body L w df columns contamination)"

section \<open>Segmentation\<close>

text \<open>
  \<^verbatim>\<open>len(cluster_info)\<close> in \<^verbatim>\<open>_determine_cluster_type\<close>: the number of keys of the
  dictionary, which is built with the keys \<^verbatim>\<open>"size"\<close>, \<^verbatim>\<open>"percentage"\<close> and
  \<^verbatim>\<open>"characteristics"\<close> and never gets another.
\<close>

definition len_cluster_info :: "cluster_info \<Rightarrow> nat" where
  "len_cluster_info ci = 3"

text \<open>
  The accumulation \<^verbatim>\<open>for feature in fs: if feature in characteristics: acc += mean\<close>.
\<close>

definition sum_of_means :: "cluster_info \<Rightarrow> string list \<Rightarrow> real" where
  "sum_of_means ci fs =
     fold (\<lambda>f acc. case characteristics ci f of Some st \<Rightarrow> acc + stats_mean st | None \<Rightarrow> acc)
       fs 0"

text \<open>
  \<^verbatim>\<open>_determine_cluster_type\<close>. Its own \<^verbatim>\<open>try\<close> block has nothing to catch on a
  dictionary built by \<^verbatim>\<open>segment_customers\<close> and a list of strings.
\<close>

definition determine_cluster_type :: "cluster_info \<Rightarrow> string list \<Rightarrow> string" where
  "determine_cluster_type ci features =
     (let spending_features =
            filter (\<lambda>f. has_keyword f [''spent'', ''value'', ''amount'', ''revenue'', ''total''])
              features;
          avg_spending = sum_of_means ci spending_features
      in if spending_features \<noteq> [] \<and> avg_spending > 0
         then (if avg_spending > 10000 then ''High-Value Premium''
               else if avg_spending > 5000 then ''Mid-Value Standard''
               else ''Low-Value Basic'')
         else
           let order_features =
                 filter (\<lambda>f. has_keyword f [''order'', ''count'', ''frequency'']) features;
               avg_orders = sum_of_means ci order_features
           in if order_features \<noteq> [] \<and> avg_orders > 0
              then (if avg_orders > 20 then ''High-Frequency Loyal''
                    else if avg_orders > 10 then ''Medium-Frequency Regular''
                    else ''Low-Frequency Occasional'')
              else if real (cluster_size ci) > real (len_cluster_info ci) * 0.4
                   then ''Mainstream Majority''
              else if real (cluster_size ci) < real (len_cluster_info ci) * 0.1
                   then ''Niche Minority''
              else ''Standard Segment'')"

text \<open>The rows of one cluster and its entry of \<^verbatim>\<open>cluster_analysis\<close>.\<close>

definition cluster_rows :: "frame \<Rightarrow> nat \<Rightarrow> row list" where
  "cluster_rows df_with_clusters cluster_id =
     filter (\<lambda>r. r ''cluster'' = Num (real cluster_id)) (rows df_with_clusters)"

definition analyse_cluster ::
  "('sc, 'fo, 'km) library \<Rightarrow> frame \<Rightarrow> nat \<Rightarrow> string list \<Rightarrow> nat \<Rightarrow> cluster_info" where
  "analyse_cluster L df_with_clusters len_df features cluster_id =
     (let cluster_data = cluster_rows df_with_clusters cluster_id
      in \<lparr>cluster_size = length cluster_data,
          percentage = real (length cluster_data) / real len_df * 100,
          characteristics =
            fold (\<lambda>feature m.
                    if feature \<in> set (colnames df_with_clusters)
                    then (let feature_data =
                                map the (filter (\<lambda>v. v \<noteq> None)
                                  (map (\<lambda>r. to_numeric L (r feature)) cluster_data))
                          in if length feature_data > 0
                             then m(feature \<mapsto>
                                    \<lparr>stats_mean = mean feature_data,
                                     stats_median = median feature_data,
                                     stats_std = series_std feature_data\<rparr>)
                             else m)
                    else m)
              features Map.empty\<rparr>)"

text \<open>\<^verbatim>\<open>", ".join(xs)\<close>\<close>

fun join_comma :: "string list \<Rightarrow> string" where
  "join_comma [] = []"
| "join_comma [x] = x"
| "join_comma (x # y # ys) = x @ '', '' @ join_comma (y # ys)"

text \<open>
  One entry of \<^verbatim>\<open>cluster_details\<close>. The rupee sign of the source is three bytes in
  UTF-8.
\<close>

definition describe_cluster ::
  "('sc, 'fo, 'km) library \<Rightarrow> string list \<Rightarrow> cluster_info \<Rightarrow> cluster_detail" where
  "describe_cluster L features ci =
     (let texts =
            concat (map (\<lambda>feature.
                      case characteristics ci feature of
                        Some st \<Rightarrow>
                          if stats_mean st > 0
                          then [feature @ '': '' @ [CHR 0xE2, CHR 0x82, CHR 0xB9]
                                  @ format_2f L (stats_mean st) @ '' avg'']
                          else []
                      | None \<Rightarrow> [])
                    features)
      in \<lparr>detail_size = cluster_size ci,
          detail_percentage = round_1 L (percentage ci),
          detail_characteristics = join_comma (take 3 texts),
          detail_type = determine_cluster_type ci features\<rparr>)"

text \<open>
  The loop \<^verbatim>\<open>for cluster_id in range(n_clusters)\<close>: the entries of
  \<^verbatim>\<open>cluster_analysis\<close>, one for every cluster number, in the order of the numbers.
\<close>

definition cluster_entries ::
  "('sc, 'fo, 'km) library \<Rightarrow> frame \<Rightarrow> nat \<Rightarrow> string list \<Rightarrow> int
     \<Rightarrow> (nat \<times> cluster_info) list" where
  "cluster_entries L df_with_clusters len_df features clusters =
     map (\<lambda>cluster_id.
            (cluster_id, analyse_cluster L df_with_clusters len_df features cluster_id))
       [0..<nat clusters]"

text \<open>
  The result of \<^verbatim>\<open>segment_customers\<close> from the labelled copy of the table. The block
  under \<^verbatim>\<open>if len(cluster_details) > 1\<close> builds two texts about the largest and the
  smallest cluster and then filters the clusters with
  \<^verbatim>\<open>any('high' in c['type'].lower() or 'premium' in c['type'].lower())\<close>. The argument
  of \<^verbatim>\<open>any\<close> is a truth value, not an iterable, so the call raises a \<open>TypeError\<close>
  for the first cluster; the list of clusters is not empty there. With at most one
  cluster the block is skipped and \<^verbatim>\<open>business_insights\<close> stays empty.
\<close>

definition segmentation_report ::
  "('sc, 'fo, 'km) library \<Rightarrow> frame \<Rightarrow> nat \<Rightarrow> string list \<Rightarrow> int \<Rightarrow> 'km
     \<Rightarrow> exn + payload" where
  "segmentation_report L df_with_clusters len_df features clusters km =
     (let analysis = cluster_entries L df_with_clusters len_df features clusters;
          details = map (\<lambda>(cluster_id, ci). describe_cluster L features ci) analysis
      in if length details > 1
         then Inl (TypeError
                ([CHR 0x27] @ ''bool'' @ [CHR 0x27] @ '' object is not iterable''))
         else Inr (Segmentation
                \<lparr>n_clusters = clusters,
                 cluster_analysis = analysis,
                 cluster_details = details,
                 cluster_centers = kmeans_centers L km,
                 total_customers = len_df,
                 features_used = features,
                 segmentation_quality = kmeans_inertia L km,
                 business_insights = []\<rparr>))"

definition segment_customers_body ::
  "('sc, 'fo, 'km) library \<Rightarrow> ('sc, 'fo, 'km) world \<Rightarrow> nat \<Rightarrow> string list \<Rightarrow> int
     \<Rightarrow> (exn + payload) \<times> ('sc, 'fo, 'km) world" where
  "segment_customers_body L w df features clusters =
     (case numeric_selection (heap w df) features of
        Inl e \<Rightarrow> (Inl e, w)
      | Inr feature_data \<Rightarrow>
      if empty_frame feature_data
      then (Inr (Error ''No numeric features found for segmentation''), w)
      else
        case fit_transform L w (to_matrix (fillna_mean feature_data)) of
          (Inl e, w1) \<Rightarrow> (Inl e, w1)
        | (Inr scaled_features, w1) \<Rightarrow>
        case kmeans_fit_predict L (w1\<lparr>segmenter_n_clusters := clusters\<rparr>) scaled_features of
          (Inl e, w3) \<Rightarrow> (Inl e, w3)
        | (Inr cluster_labels, w3) \<Rightarrow>
        let (df_with_clusters, w4) = alloc w3 (heap w3 df)
        in case setitem (heap w4 df_with_clusters) ''cluster''
                  (map (\<lambda>l. Num (real_of_int l)) cluster_labels) of
             Inl e \<Rightarrow> (Inl e, w4)
           | Inr labelled \<Rightarrow>
        let w5 = store w4 df_with_clusters labelled
        in case segmenter w5 of
             None \<Rightarrow> (Inl (NotFittedError ''KMeans''), w5)
           | Some km \<Rightarrow>
               (segmentation_report L (heap w5 df_with_clusters) (length (rows (heap w5 df)))
                  features clusters km, w5))"

definition segment_customers ::
  "('sc, 'fo, 'km) library \<Rightarrow> ('sc, 'fo, 'km) world \<Rightarrow> nat \<Rightarrow> string list \<Rightarrow> int
     \<Rightarrow> (exn + payload) \<times> ('sc, 'fo, 'km) world" where
  "segment_customers L w df features clusters =
     try_except ''Customer segmentation failed: ''
       (segment_customers_body L w df features clusters)"

section \<open>Correlation analysis\<close>

text \<open>
  \<^verbatim>\<open>DataFrame.corr()\<close>: Pearson's coefficient of two columns over the rows where
  both have a value. It is NaN when no such row exists or when one of the two columns is
  constant on these rows, the quotient being undefined then; the library computes the
  diagonal entries in the same way.
\<close>

definition pearson :: "cell list \<Rightarrow> cell list \<Rightarrow> cell" where
  "pearson a b =
     (let both = filter (\<lambda>(x, y). x \<noteq> Null \<and> y \<noteq> Null) (zip a b);
          xs = map (the_num \<circ> fst) both;
          ys = map (the_num \<circ> snd) both;
          sxx = sum_list (map (\<lambda>x. (x - mean xs)\<^sup>2) xs);
          syy = sum_list (map (\<lambda>y. (y - mean ys)\<^sup>2) ys);
          sxy = sum_list (map2 (\<lambda>x y. (x - mean xs) * (y - mean ys)) xs ys);
          divisor = sqrt (sxx * syy)
      in if both = [] \<or> divisor = 0 then Null else Num (sxy / divisor))"

text \<open>The matrix by position: entry \<open>i\<close>, \<open>j\<close> is \<^verbatim>\<open>correlation_matrix.iloc[i, j]\<close>.\<close>

definition corr :: "frame \<Rightarrow> cell list list" where
  "corr df = map (\<lambda>ci. map (\<lambda>cj. pearson (column df ci) (column df cj)) (colnames df))
                 (colnames df)"

text \<open>
  \<^verbatim>\<open>correlation_matrix.to_dict()\<close>: for every column label the dictionary from the
  row labels to the entries of that column.
\<close>

definition to_dict :: "string list \<Rightarrow> cell list list \<Rightarrow> (string \<times> (string \<times> cell) list) list" where
  "to_dict names m =
     map (\<lambda>j. (names ! j, map (\<lambda>i. (names ! i, m ! i ! j)) [0..<length names]))
       [0..<length names]"

text \<open>\<^verbatim>\<open>abs(corr_value) > 0.7\<close>; a comparison with NaN is false.\<close>

definition is_strong :: "cell \<Rightarrow> bool" where
  "is_strong c = (case c of Num r \<Rightarrow> \<bar>r\<bar> > 0.7 | _ \<Rightarrow> False)"

text \<open>The display name of a column: an icon in front of the label.\<close>

definition variable_name :: "string \<Rightarrow> icon \<times> string" where
  "variable_name col =
     (if has_keyword col [''total'', ''amount'', ''spent''] then (Money_bag, col)
      else if has_keyword col [''date'', ''time''] then (Calendar, col)
      else if has_keyword col [''stock'', ''quantity''] then (Package, col)
      else if has_keyword col [''price'', ''cost''] then (Banknote, col)
      else if has_keyword col [''order'', ''count''] then (Cart, col)
      else (Bar_chart, col))"

text \<open>
  \<^verbatim>\<open>_interpret_correlation\<close>: the generic sentences at its end. The thresholds are
  compared as real numbers; the program compares floats, so a coefficient within a
  rounding error of a threshold may fall on the other side there.
\<close>

definition generic_interpretation :: "real \<Rightarrow> string" where
  "generic_interpretation corr_value =
     (if corr_value > 0.9
      then ''Very strong positive relationship - these variables move together''
      else if corr_value > 0.7
      then ''Strong positive relationship - as one increases, the other tends to increase''
      else if corr_value < - 0.9
      then ''Very strong negative relationship - these variables move in opposite directions''
      else if corr_value < - 0.7
      then ''Strong negative relationship - as one increases, the other tends to decrease''
      else ''Moderate relationship - some connection exists'')"

definition interpret_correlation :: "string \<Rightarrow> string \<Rightarrow> real \<Rightarrow> string" where
  "interpret_correlation var1 var2 corr_value =
     (if has_keyword var1 [''total'', ''amount'', ''spent'']
         \<and> has_keyword var2 [''total'', ''amount'', ''spent'']
      then (if corr_value > 0.7
            then ''High spending customers tend to have high total amounts''
            else ''Spending patterns are independent'')
      else if has_keyword var1 [''stock'', ''quantity''] \<and> has_keyword var2 [''cost'', ''price'']
              \<and> corr_value > 0.7
      then ''Higher stock quantities correlate with higher costs''
      else if has_keyword var1 [''stock'', ''quantity''] \<and> has_keyword var2 [''cost'', ''price'']
              \<and> corr_value < - 0.7
      then ''Higher stock quantities correlate with lower unit costs (bulk pricing)''
      else if has_keyword var1 [''order'', ''count''] \<and> has_keyword var2 [''total'', ''amount'']
      then (if corr_value > 0.7
            then ''More orders correlate with higher total amounts''
            else ''Order frequency and amounts are independent'')
      else if has_keyword var1 [''date'', ''time''] \<and> has_keyword var2 [''total'', ''amount'']
              \<and> corr_value > 0.7
      then ''Time-based trends in spending/amounts detected''
      else if has_keyword var1 [''date'', ''time''] \<and> has_keyword var2 [''total'', ''amount'']
              \<and> corr_value < - 0.7
      then ''Inverse time-based trends detected''
      else generic_interpretation corr_value)"

text \<open>
  The double loop over \<open>i < j\<close> that collects the strong pairs, with the display names
  and the interpretation that the second loop adds to each.
\<close>

definition strong_pairs :: "string list \<Rightarrow> cell list list \<Rightarrow> strong_correlation list" where
  "strong_pairs names m =
     concat (map (\<lambda>i.
       concat (map (\<lambda>j.
         let corr_value = m ! i ! j
         in if is_strong corr_value
            then [\<lparr>variable1 = names ! i,
                   variable2 = names ! j,
                   correlation = the_num corr_value,
                   strength = (if the_num corr_value > 0 then ''strong positive''
                               else ''strong negative''),
                   variable1_display = variable_name (names ! i),
                   variable2_display = variable_name (names ! j),
                   interpretation_text =
                     interpret_correlation (names ! i) (names ! j) (the_num corr_value)\<rparr>]
            else [])
         [Suc i..<length names]))
       [0..<length names])"

text \<open>
  The mean of the entries above the diagonal, as \<^verbatim>\<open>ndarray.mean\<close> computes it: NaN
  when there is no entry or when one of them is NaN.
\<close>

definition upper_triangle_mean :: "nat \<Rightarrow> cell list list \<Rightarrow> cell" where
  "upper_triangle_mean n m =
     (let entries = concat (map (\<lambda>i. map (\<lambda>j. m ! i ! j) [Suc i..<n]) [0..<n])
      in if entries = [] \<or> \<not> list_all is_Num entries then Null
         else Num (mean (map the_num entries)))"

definition correlation_report :: "frame \<Rightarrow> correlation_result" where
  "correlation_report numeric_data =
     (let names = colnames numeric_data;
          m = corr numeric_data;
          enhanced = strong_pairs names m
      in \<lparr>correlation_matrix = to_dict names m,
          strong_correlations = enhanced,
          variables_analyzed = length names,
          total_variables = length names,
          strong_correlations_count = length enhanced,
          mean_correlation = upper_triangle_mean (length names) m\<rparr>)"

definition calculate_correlations_body ::
  "('sc, 'fo, 'km) library \<Rightarrow> ('sc, 'fo, 'km) world \<Rightarrow> nat \<Rightarrow> string list option
     \<Rightarrow> (exn + payload) \<times> ('sc, 'fo, 'km) world" where
  "calculate_correlations_body L w df columns =
     (case (case columns of
              None \<Rightarrow> Inr (select_numeric (heap w df))
            | Some cs \<Rightarrow> numeric_selection (heap w df) cs) of
        Inl e \<Rightarrow> (Inl e, w)
      | Inr numeric_data \<Rightarrow>
             if empty_frame numeric_data
             then (Inr (Error ''No numeric columns found for correlation analysis''), w)
             else
               (Inr (Correlation (correlation_report numeric_data)), w))"

definition calculate_correlations ::
  "('sc, 'fo, 'km) library \<Rightarrow> ('sc, 'fo, 'km) world \<Rightarrow> nat \<Rightarrow> string list option
     \<Rightarrow> (exn + payload) \<times> ('sc, 'fo, 'km) world" where
  "calculate_correlations L w df columns =
     try_except ''Correlation analysis failed: ''
       (calculate_correlations_body L w df columns)"

section \<open>Notions used in the statements\<close>

text \<open>
  The rows that \<^verbatim>\<open>detect_trends\<close> and \<^verbatim>\<open>generate_forecast\<close> count as valid: the
  table after the date column was parsed and the rows without a date or a value were
  dropped. It is an exception when one of the two columns does not exist.
\<close>

definition valid_rows ::
  "('sc, 'fo, 'km) library \<Rightarrow> frame \<Rightarrow> string \<Rightarrow> string \<Rightarrow> exn + frame" where
  "valid_rows L df date_column value_column =
     and_then (parse_dates L df date_column)
       (\<lambda>parsed. dropna parsed [date_column, value_column])"

text \<open>The mean of the trailing \<open>min k n\<close> values of a series of \<open>n\<close> values.\<close>

definition trailing_mean :: "nat \<Rightarrow> real list \<Rightarrow> real" where
  "trailing_mean k ys =
     sum_list (drop (length ys - min k (length ys)) ys) / real (min k (length ys))"

text \<open>
  The date-sorted series of a table of valid rows: the values under \<open>value_column\<close>
  in the order in which \<^verbatim>\<open>sort_values\<close> leaves the rows.
\<close>

definition sorted_series ::
  "('sc, 'fo, 'km) library \<Rightarrow> frame \<Rightarrow> string \<Rightarrow> string \<Rightarrow> real list" where
  "sorted_series L valid date_column value_column =
     map the_num (column (sort_values L valid date_column) value_column)"

text \<open>
  The entry of the returned correlation matrix in the row labelled \<open>a\<close> of the column
  labelled \<open>b\<close>: \<^verbatim>\<open>result["correlation_matrix"][b][a]\<close>.
\<close>

definition matrix_entry ::
  "(string \<times> (string \<times> cell) list) list \<Rightarrow> string \<Rightarrow> string \<Rightarrow> cell option" where
  "matrix_entry m a b = (case map_of m b of None \<Rightarrow> None | Some col \<Rightarrow> map_of col a)"

text \<open>A column varies when two of its values differ, missing values aside.\<close>

definition varies :: "cell list \<Rightarrow> bool" where
  "varies cs = (let vs = filter (\<lambda>c. c \<noteq> Null) cs in list_ex (\<lambda>x. x \<noteq> hd vs) vs)"

text \<open>
  The number of valid rows; none when the date or the value column does not exist.
\<close>

definition valid_count ::
  "('sc, 'fo, 'km) library \<Rightarrow> frame \<Rightarrow> string \<Rightarrow> string \<Rightarrow> nat" where
  "valid_count L df date_column value_column =
     (case valid_rows L df date_column value_column of
        Inl e \<Rightarrow> 0
      | Inr valid \<Rightarrow> length (rows valid))"

text \<open>
  The sum of the squared residuals of the line with slope \<open>a\<close> and intercept \<open>b\<close> at
  the points with abscissae \<open>x\<close> and ordinates \<open>y\<close>.
\<close>

definition squared_error :: "real list \<Rightarrow> real list \<Rightarrow> real \<Rightarrow> real \<Rightarrow> real" where
  "squared_error x y a b = sum_list (map2 (\<lambda>xi yi. (yi - (a * xi + b))\<^sup>2) x y)"

text \<open>
  A sequence of calls of the five operations, on any tables and with any parameters,
  leads from the state \<open>w\<close> to the state \<open>w'\<close>.
\<close>

inductive runs ::
  "('sc, 'fo, 'km) library \<Rightarrow> ('sc, 'fo, 'km) world \<Rightarrow> ('sc, 'fo, 'km) world \<Rightarrow> bool"
  for L :: "('sc, 'fo, 'km) library" and w :: "('sc, 'fo, 'km) world" where
  nothing: "runs L w w"
| trends: "runs L w w1 \<Longrightarrow> runs L w (snd (detect_trends L w1 df dc vc wd))"
| anomalies: "runs L w w1 \<Longrightarrow> runs L w (snd (detect_anomalies L w1 df columns c))"
| segmentation: "runs L w w1 \<Longrightarrow> runs L w (snd (segment_customers L w1 df features k))"
| correlations: "runs L w w1 \<Longrightarrow> runs L w (snd (calculate_correlations L w1 df selection))"
| forecast: "runs L w w1 \<Longrightarrow> runs L w (snd (generate_forecast L w1 df dc vc periods))"

text \<open>
  What a call keeps of a state \<open>w\<close>: the tables that exist in \<open>w\<close> and the seeds of
  the two estimators.
\<close>

definition keeps ::
  "('sc, 'fo, 'km) world \<Rightarrow> ('sc, 'fo, 'km) world \<Rightarrow> bool" where
  "keeps w w' \<longleftrightarrow>
     nxt w \<le> nxt w'
     \<and> (\<forall>a<nxt w. heap w' a = heap w a)
     \<and> detector_random_state w' = detector_random_state w
     \<and> segmenter_random_state w' = segmenter_random_state w"

section \<open>Concrete tables and a small library\<close>

text \<open>A table from its column labels and its rows of cells.\<close>

definition table_of :: "string list \<Rightarrow> cell list list \<Rightarrow> frame" where
  "table_of names data =
     \<lparr>colnames = names,
      rows = map (\<lambda>cells c. case map_of (zip names cells) c of Some v \<Rightarrow> v | None \<Rightarrow> Null)
               data\<rparr>"

text \<open>
  A table with a \<open>date\<close> column of consecutive timestamps and the given values under
  \<open>value_column\<close>.
\<close>

definition series_table :: "string \<Rightarrow> real list \<Rightarrow> frame" where
  "series_table value_column vs =
     table_of [''date'', value_column]
       (map (\<lambda>(i, v). [Stamp (int i), Num v]) (enumerate 0 vs))"

text \<open>
  A library to run the model on concrete tables: dates have to be timestamps already,
  the scaler leaves the data as it is, the forest scores a row by its first entry,
  k-means puts every row into cluster 0, and the sort keeps rows of equal keys in their
  order.
\<close>

definition stub_library :: "(unit, unit, nat) library" where
  "stub_library =
     \<lparr>parse_datetime = (\<lambda>c. None),
      parse_numeric = (\<lambda>s. None),
      format_2f = (\<lambda>x. []),
      round_1 = (\<lambda>x. x),
      scaler_fit = (\<lambda>X. Inr ()),
      scaler_transform = (\<lambda>sc X. X),
      forest_fit = (\<lambda>c seed X. Inr ()),
      forest_decision = (\<lambda>fo X. map (\<lambda>r. the_num (hd r)) X),
      kmeans_fit = (\<lambda>k seed X. if 1 \<le> k \<and> k \<le> int (length X) then Inr (length X)
                              else Inl (ValueError ''n_samples should be >= n_clusters'')),
      kmeans_labels = (\<lambda>n. replicate n 0),
      kmeans_centers = (\<lambda>n. []),
      kmeans_inertia = (\<lambda>n. 0),
      quicksort_rank = (\<lambda>keys i. i)\<rparr>"

text \<open>The state after the engine was created, with one table at address 0.\<close>

definition world_with :: "frame \<Rightarrow> (unit, unit, nat) world" where
  "world_with t =
     init \<lparr>heap = (\<lambda>a. t), nxt = 1, scaler = None,
           detector_contamination = 0, detector_random_state = 0, detector = None,
           segmenter_n_clusters = 0, segmenter_random_state = 0, segmenter = None\<rparr>"

section \<open>Basic facts\<close>

lemma rows_setcol: "length (rows (setcol f c vs)) = min (length (rows f)) (length vs)"
  by (simp add: setcol_def)

lemma numeric_column_length: "numeric_column f c = Inr v \<Longrightarrow> length v = length (rows f)"
  by (auto simp: numeric_column_def getitem_def split: sum.splits if_splits)

lemma length_rolling_mean [simp]: "length (rolling_mean k xs) = length xs"
  by (simp add: rolling_mean_def)

lemma length_pct_change [simp]: "length (pct_change k xs) = length xs"
  by (simp add: pct_change_def)

lemma length_tail: "0 \<le> n \<Longrightarrow> length (tail n xs) = min (nat n) (length xs)"
  by (auto simp: tail_def)

lemma fst_try_except:
  "fst (try_except label out) =
     (case fst out of Inl e \<Rightarrow> Inr (Error (label @ str_exn e)) | Inr p \<Rightarrow> Inr p)"
  by (cases out) (simp add: try_except_def split: sum.splits)

lemma snd_try_except: "snd (try_except label out) = snd out"
  by (cases out) (simp add: try_except_def split: sum.splits)

lemma try_except_returns: "\<exists>p. fst (try_except label out) = Inr p"
  by (simp add: fst_try_except split: sum.splits)

subsection \<open>What each operation returns, as a function of its input table\<close>

lemma detect_trends_body_fst:
  "fst (detect_trends_body L w df dc vc wd) =
     and_then (valid_rows L (heap w df) dc vc) (\<lambda>valid.
       if length (rows valid) < 2 then Inr (Error ''Insufficient data for trend analysis'')
       else and_then (trend_columns (sort_values L valid dc) vc) (\<lambda>extended.
              trend_summary extended dc vc wd))"
  unfolding detect_trends_body_def alloc_def store_def valid_rows_def and_then_def
  by (simp add: Let_def split: sum.splits)

lemma generate_forecast_body_fst:
  "fst (generate_forecast_body L w df dc vc periods) =
     and_then (valid_rows L (heap w df) dc vc) (\<lambda>valid.
       if length (rows valid) < 10
       then Inr (Error ''Insufficient data for forecasting (minimum 10 data points required)'')
       else and_then (forecast_columns (sort_values L valid dc) vc) (\<lambda>extended.
              forecast_summary extended vc periods))"
  unfolding generate_forecast_body_def alloc_def store_def valid_rows_def and_then_def
  by (simp add: Let_def split: sum.splits)

lemma calculate_correlations_body_fst:
  "fst (calculate_correlations_body L w df columns) =
     and_then (case columns of None \<Rightarrow> Inr (select_numeric (heap w df))
               | Some cs \<Rightarrow> numeric_selection (heap w df) cs)
       (\<lambda>numeric_data. if empty_frame numeric_data
          then Inr (Error ''No numeric columns found for correlation analysis'')
          else Inr (Correlation (correlation_report numeric_data)))"
  unfolding calculate_correlations_body_def and_then_def
  by (simp split: sum.splits)

subsection \<open>Tables that exist before a call are not written\<close>

lemma detect_trends_body_heap:
  "a < nxt w \<Longrightarrow> heap (snd (detect_trends_body L w df dc vc wd)) a = heap w a"
  unfolding detect_trends_body_def alloc_def store_def
  by (simp add: Let_def split: sum.splits)

lemma generate_forecast_body_heap:
  "a < nxt w \<Longrightarrow> heap (snd (generate_forecast_body L w df dc vc wd)) a = heap w a"
  unfolding generate_forecast_body_def alloc_def store_def
  by (simp add: Let_def split: sum.splits)

lemma calculate_correlations_body_heap:
  "heap (snd (calculate_correlations_body L w df columns)) a = heap w a"
  unfolding calculate_correlations_body_def
  by (simp add: Let_def split: sum.splits option.splits)

lemma detect_anomalies_body_heap:
  "a < nxt w \<Longrightarrow> heap (snd (detect_anomalies_body L w df columns c)) a = heap w a"
  unfolding detect_anomalies_body_def fit_transform_def fit_predict_def alloc_def store_def
  by (simp add: Let_def split: sum.splits prod.splits option.splits)

lemma segment_customers_body_heap:
  "a < nxt w \<Longrightarrow> heap (snd (segment_customers_body L w df features k)) a = heap w a"
  unfolding segment_customers_body_def fit_transform_def kmeans_fit_predict_def alloc_def store_def
  by (simp add: Let_def split: sum.splits prod.splits option.splits)

subsection \<open>Row counts\<close>

lemma mset_sort_by_rank:
  assumes "length ks = length xs"
  shows "mset (map snd (sort_key fst (zip ks xs))) = mset xs"
proof -
  have "mset (map snd (sort_key fst (zip ks xs))) = mset (map snd (zip ks xs))"
    by simp
  also have "\<dots> = mset xs"
    by (simp only: map_snd_zip[OF assms])
  finally show ?thesis .
qed

text \<open>
  Whatever order the library gives to rows of equal keys, the sorted table holds the
  rows of the table, each as often as the table does, in the order of their timestamps.
\<close>

lemma sort_values_sorts:
  "mset (rows (sort_values L df c)) = mset (rows df)"
  "sorted (map (\<lambda>r. the_stamp (r c)) (rows (sort_values L df c)))"
proof -
  let ?ks = "map (quicksort_rank L (map (\<lambda>r. the_stamp (r c)) (rows df)))
               [0..<length (rows df)]"
  have "mset (sort_key (\<lambda>r. the_stamp (r c)) (map snd (sort_key fst (zip ?ks (rows df)))))
      = mset (map snd (sort_key fst (zip ?ks (rows df))))"
    by (simp only: mset_sort)
  also have "\<dots> = mset (rows df)"
    by (rule mset_sort_by_rank) simp
  finally show "mset (rows (sort_values L df c)) = mset (rows df)"
    by (simp add: sort_values_def Let_def)
  show "sorted (map (\<lambda>r. the_stamp (r c)) (rows (sort_values L df c)))"
    by (simp add: sort_values_def Let_def)
qed

lemma rows_sort_values:
  "length (rows (sort_values L df c)) = length (rows df)"
  "set (rows (sort_values L df c)) = set (rows df)"
  "colnames (sort_values L df c) = colnames df"
  using mset_eq_length[OF sort_values_sorts(1)] mset_eq_setD[OF sort_values_sorts(1)]
  by (simp_all add: sort_values_def Let_def)

lemma derive_column_rows:
  assumes "derive_column f name g vc = Inr t" and "\<And>v. length (g v) = length v"
  shows "length (rows t) = length (rows f)"
  using assms
  by (auto simp: derive_column_def rows_setcol dest!: numeric_column_length split: sum.splits)

lemma trend_columns_rows:
  assumes "trend_columns f vc = Inr t"
  shows "length (rows t) = length (rows f)"
proof -
  from assms obtain t1 t2 t3 where
    1: "derive_column f ''MA_7'' (\<lambda>v. map Num (rolling_mean 7 v)) vc = Inr t1" and
    2: "derive_column t1 ''MA_30'' (\<lambda>v. map Num (rolling_mean 30 v)) vc = Inr t2" and
    3: "derive_column t2 ''Daily_Growth'' (pct_change 1) vc = Inr t3" and
    4: "derive_column t3 ''Weekly_Growth'' (pct_change 7) vc = Inr t"
    by (auto simp: trend_columns_def and_then_def split: sum.splits)
  have "length (rows t1) = length (rows f)" using derive_column_rows[OF 1] by simp
  moreover have "length (rows t2) = length (rows t1)" using derive_column_rows[OF 2] by simp
  moreover have "length (rows t3) = length (rows t2)" using derive_column_rows[OF 3] by simp
  moreover have "length (rows t) = length (rows t3)" using derive_column_rows[OF 4] by simp
  ultimately show ?thesis by simp
qed

lemma trend_summary_cases:
  assumes "2 \<le> wd" and "2 \<le> length (rows f)"
  shows "(\<exists>e. trend_summary f dc vc wd = Inl e) \<or> (\<exists>r. trend_summary f dc vc wd = Inr (Trend r))"
proof -
  have "length (tail wd (rows f)) > 1"
    using assms by (simp add: length_tail)
  then show ?thesis
    unfolding trend_summary_def
    by (simp add: Let_def split: sum.splits)
qed

subsection \<open>Empty tables\<close>

lemma valid_rows_empty:
  assumes "empty_frame f"
  shows "(\<exists>e. valid_rows L f dc vc = Inl e) \<or> (\<exists>v. valid_rows L f dc vc = Inr v \<and> rows v = [])"
proof (cases "colnames f = []")
  case True
  then show ?thesis
    by (simp add: valid_rows_def parse_dates_def getitem_def and_then_def)
next
  case False
  with assms have "rows f = []" by (simp add: empty_frame_def)
  then show ?thesis
    by (auto simp: valid_rows_def parse_dates_def getitem_def and_then_def setcol_def dropna_def
        split: sum.splits list.splits)
qed

lemma numeric_selection_empty:
  assumes "empty_frame f" and "numeric_selection f cs = Inr nd"
  shows "empty_frame nd"
proof -
  from assms(2) have ok: "filter (\<lambda>c. c \<notin> set (colnames f)) cs = []"
    and nd: "nd = select_numeric (f\<lparr>colnames := cs\<rparr>)"
    by (auto simp: numeric_selection_def getitem_list_def split: sum.splits list.splits)
  show ?thesis
  proof (cases "colnames f = []")
    case True
    with ok have "cs = []" by simp
    then show ?thesis by (simp add: nd select_numeric_def empty_frame_def)
  next
    case False
    with assms(1) have "rows f = []" by (simp add: empty_frame_def)
    then show ?thesis by (simp add: nd select_numeric_def empty_frame_def)
  qed
qed

lemma select_numeric_empty: "empty_frame f \<Longrightarrow> empty_frame (select_numeric f)"
  by (auto simp: empty_frame_def select_numeric_def)

lemma detect_trends_empty:
  assumes "empty_frame (heap w df)"
  shows "\<exists>m. fst (detect_trends L w df dc vc wd) = Inr (Error m)"
  using valid_rows_empty[OF assms, of L dc vc]
  by (auto simp: detect_trends_def fst_try_except detect_trends_body_fst and_then_def)

lemma generate_forecast_empty:
  assumes "empty_frame (heap w df)"
  shows "\<exists>m. fst (generate_forecast L w df dc vc periods) = Inr (Error m)"
  using valid_rows_empty[OF assms, of L dc vc]
  by (auto simp: generate_forecast_def fst_try_except generate_forecast_body_fst and_then_def)

lemma detect_anomalies_empty:
  assumes "empty_frame (heap w df)"
  shows "\<exists>m. fst (detect_anomalies L w df columns c) = Inr (Error m)"
proof (cases "numeric_selection (heap w df) columns")
  case (Inl e)
  then show ?thesis
    by (simp add: detect_anomalies_def fst_try_except detect_anomalies_body_def)
next
  case (Inr nd)
  with assms have "empty_frame nd" by (rule numeric_selection_empty)
  with Inr show ?thesis
    by (simp add: detect_anomalies_def fst_try_except detect_anomalies_body_def)
qed

lemma segment_customers_empty:
  assumes "empty_frame (heap w df)"
  shows "\<exists>m. fst (segment_customers L w df features k) = Inr (Error m)"
proof (cases "numeric_selection (heap w df) features")
  case (Inl e)
  then show ?thesis
    by (simp add: segment_customers_def fst_try_except segment_customers_body_def)
next
  case (Inr nd)
  with assms have "empty_frame nd" by (rule numeric_selection_empty)
  with Inr show ?thesis
    by (simp add: segment_customers_def fst_try_except segment_customers_body_def)
qed

lemma calculate_correlations_empty:
  assumes "empty_frame (heap w df)"
  shows "\<exists>m. fst (calculate_correlations L w df columns) = Inr (Error m)"
proof (cases columns)
  case None
  with select_numeric_empty[OF assms] show ?thesis
    by (simp add: calculate_correlations_def fst_try_except calculate_correlations_body_fst
        and_then_def)
next
  case (Some cs)
  show ?thesis
  proof (cases "numeric_selection (heap w df) cs")
    case (Inl e)
    with Some show ?thesis
      by (simp add: calculate_correlations_def fst_try_except calculate_correlations_body_fst
          and_then_def)
  next
    case (Inr nd)
    with assms have "empty_frame nd" by (rule numeric_selection_empty)
    with Some Inr show ?thesis
      by (simp add: calculate_correlations_def fst_try_except calculate_correlations_body_fst
          and_then_def)
  qed
qed

section \<open>Error handling\<close>

text \<open>
  Claim C8. Each of the five public operations returns a dictionary for every input: a
  result or an error; it never raises to its caller. On an empty table (no column or no
  row) every one of them returns an error.
\<close>

theorem operations_return_payloads:
  "(\<exists>p. fst (detect_trends L w df date_column value_column window_days) = Inr p)
   \<and> (\<exists>p. fst (detect_anomalies L w df columns contamination) = Inr p)
   \<and> (\<exists>p. fst (segment_customers L w df features clusters) = Inr p)
   \<and> (\<exists>p. fst (calculate_correlations L w df selection) = Inr p)
   \<and> (\<exists>p. fst (generate_forecast L w df date_column value_column periods) = Inr p)
   \<and> (empty_frame (heap w df) \<longrightarrow>
        (\<exists>m. fst (detect_trends L w df date_column value_column window_days) = Inr (Error m))
      \<and> (\<exists>m. fst (detect_anomalies L w df columns contamination) = Inr (Error m))
      \<and> (\<exists>m. fst (segment_customers L w df features clusters) = Inr (Error m))
      \<and> (\<exists>m. fst (calculate_correlations L w df selection) = Inr (Error m))
      \<and> (\<exists>m. fst (generate_forecast L w df date_column value_column periods) = Inr (Error m)))"
  using detect_trends_empty[of w df L date_column value_column window_days]
    detect_anomalies_empty[of w df L columns contamination]
    segment_customers_empty[of w df L features clusters]
    calculate_correlations_empty[of w df L selection]
    generate_forecast_empty[of w df L date_column value_column periods]
  by (simp add: detect_trends_def detect_anomalies_def segment_customers_def
      calculate_correlations_def generate_forecast_def try_except_returns)

theorem operations_return_payloads_witness:
  "empty_frame (heap (world_with (table_of [] [])) 0)
   \<and> (\<exists>m. fst (detect_trends stub_library (world_with (table_of [] [])) 0 ''date'' ''total'' 30)
          = Inr (Error m))
   \<and> (\<exists>m. fst (detect_anomalies stub_library (world_with (table_of [] [])) 0 [''total''] 0.1)
          = Inr (Error m))
   \<and> (\<exists>m. fst (segment_customers stub_library (world_with (table_of [] [])) 0 [''total''] 4)
          = Inr (Error m))
   \<and> (\<exists>m. fst (calculate_correlations stub_library (world_with (table_of [] [])) 0 None)
          = Inr (Error m))
   \<and> (\<exists>m. fst (generate_forecast stub_library (world_with (table_of [] [])) 0 ''date'' ''total'' 30)
          = Inr (Error m))"
proof -
  have "empty_frame (heap (world_with (table_of [] [])) 0)"
    by (simp add: world_with_def init_def table_of_def empty_frame_def)
  with operations_return_payloads[of stub_library "world_with (table_of [] [])" 0
      "''date''" "''total''" 30 "[''total'']" "0.1" "[''total'']" 4 None 30]
  show ?thesis by simp
qed

section \<open>The input table\<close>

text \<open>
  Claim C9. Every operation leaves its input table as it was: the table found under the
  address \<open>df\<close> after the call is the table that was passed in. The operations write
  only into the copies they make.
\<close>

theorem input_table_unchanged:
  assumes "df < nxt w"
  shows "heap (snd (detect_trends L w df date_column value_column window_days)) df = heap w df
       \<and> heap (snd (detect_anomalies L w df columns contamination)) df = heap w df
       \<and> heap (snd (segment_customers L w df features clusters)) df = heap w df
       \<and> heap (snd (calculate_correlations L w df selection)) df = heap w df
       \<and> heap (snd (generate_forecast L w df date_column value_column periods)) df = heap w df"
  using assms
  by (simp add: detect_trends_def detect_anomalies_def segment_customers_def
      calculate_correlations_def generate_forecast_def snd_try_except
      detect_trends_body_heap detect_anomalies_body_heap segment_customers_body_heap
      calculate_correlations_body_heap generate_forecast_body_heap)

theorem input_table_unchanged_witness:
  "heap (snd (detect_trends stub_library (world_with (series_table ''total'' [10, 20, 30])) 0
                ''date'' ''total'' 30)) 0 = series_table ''total'' [10, 20, 30]
   \<and> heap (snd (detect_anomalies stub_library (world_with (series_table ''total'' [10, 20, 30])) 0
                [''total''] 0.1)) 0 = series_table ''total'' [10, 20, 30]
   \<and> heap (snd (segment_customers stub_library (world_with (series_table ''total'' [10, 20, 30])) 0
                [''total''] 4)) 0 = series_table ''total'' [10, 20, 30]
   \<and> heap (snd (calculate_correlations stub_library
                (world_with (series_table ''total'' [10, 20, 30])) 0 None)) 0
       = series_table ''total'' [10, 20, 30]
   \<and> heap (snd (generate_forecast stub_library (world_with (series_table ''total'' [10, 20, 30])) 0
                ''date'' ''total'' 30)) 0 = series_table ''total'' [10, 20, 30]"
proof -
  have "0 < nxt (world_with (series_table ''total'' [10, 20, 30]))"
    by (simp add: world_with_def init_def)
  from input_table_unchanged[OF this, of stub_library "''date''" "''total''" 30
      "[''total'']" "0.1" "[''total'']" 4 None 30]
  show ?thesis by (simp add: world_with_def init_def)
qed

section \<open>Trend detection\<close>

text \<open>
  Claim C10. For a window of at least 2 days, once at least two valid rows were found,
  \<^verbatim>\<open>detect_trends\<close> returns a trend result or the error made from an exception; it
  never returns the error \<^verbatim>\<open>Insufficient recent data for trend analysis\<close>, whose branch
  needs a trailing slice of fewer than two rows.
\<close>

theorem recent_data_branch_unreachable:
  assumes "2 \<le> window_days"
    and "valid_rows L (heap w df) date_column value_column = Inr valid"
    and "2 \<le> length (rows valid)"
  shows "((\<exists>r. fst (detect_trends L w df date_column value_column window_days) = Inr (Trend r))
          \<or> (\<exists>e. fst (detect_trends L w df date_column value_column window_days)
                   = Inr (Error (''Trend analysis failed: '' @ str_exn e))))
       \<and> fst (detect_trends L w df date_column value_column window_days)
           \<noteq> Inr (Error ''Insufficient recent data for trend analysis'')"
proof -
  let ?sorted = "sort_values L valid date_column"
  have body: "fst (detect_trends_body L w df date_column value_column window_days) =
      and_then (trend_columns ?sorted value_column)
        (\<lambda>extended. trend_summary extended date_column value_column window_days)"
    using assms(2,3) by (simp add: detect_trends_body_fst and_then_def)
  show ?thesis
  proof (cases "trend_columns ?sorted value_column")
    case (Inl e)
    then show ?thesis
      by (auto simp: detect_trends_def fst_try_except body and_then_def)
  next
    case (Inr extended)
    have "length (rows extended) = length (rows valid)"
      using trend_columns_rows[OF Inr] by (simp add: rows_sort_values)
    then have "2 \<le> length (rows extended)" using assms(3) by simp
    from trend_summary_cases[OF assms(1) this, of date_column value_column] Inr
    show ?thesis
      by (auto simp: detect_trends_def fst_try_except body and_then_def)
  qed
qed

theorem recent_data_branch_unreachable_witness:
  "fst (detect_trends stub_library (world_with (series_table ''total'' [10, 20, 30])) 0
          ''date'' ''total'' 2)
     \<noteq> Inr (Error ''Insufficient recent data for trend analysis'')"
proof -
  have "\<exists>valid. valid_rows stub_library (heap (world_with (series_table ''total'' [10, 20, 30])) 0)
                  ''date'' ''total'' = Inr valid \<and> 2 \<le> length (rows valid)"
    by (simp add: valid_rows_def parse_dates_def getitem_def setcol_def dropna_def and_then_def
        world_with_def init_def series_table_def table_of_def to_datetime_def)
  then obtain valid where
    "valid_rows stub_library (heap (world_with (series_table ''total'' [10, 20, 30])) 0)
       ''date'' ''total'' = Inr valid" and "2 \<le> length (rows valid)"
    by blast
  from recent_data_branch_unreachable[OF _ this, of 2] show ?thesis by simp
qed

subsection \<open>What a call keeps of the state\<close>

lemma keeps_refl: "keeps w w"
  by (simp add: keeps_def)

lemma keeps_trans: "keeps w w1 \<Longrightarrow> keeps w1 w2 \<Longrightarrow> keeps w w2"
  by (auto simp: keeps_def)

lemma detect_trends_keeps: "keeps w (snd (detect_trends L w df dc vc wd))"
  unfolding keeps_def detect_trends_def snd_try_except detect_trends_body_def alloc_def store_def
  by (simp add: Let_def split: sum.splits)

lemma generate_forecast_keeps: "keeps w (snd (generate_forecast L w df dc vc periods))"
  unfolding keeps_def generate_forecast_def snd_try_except generate_forecast_body_def
    alloc_def store_def
  by (simp add: Let_def split: sum.splits)

lemma calculate_correlations_keeps: "keeps w (snd (calculate_correlations L w df selection))"
  unfolding keeps_def calculate_correlations_def snd_try_except calculate_correlations_body_def
  by (simp add: Let_def split: sum.splits option.splits)

lemma detect_anomalies_keeps: "keeps w (snd (detect_anomalies L w df columns c))"
  unfolding keeps_def detect_anomalies_def snd_try_except detect_anomalies_body_def
    fit_transform_def fit_predict_def alloc_def store_def
  by (simp add: Let_def split: sum.splits prod.splits option.splits)

lemma segment_customers_keeps: "keeps w (snd (segment_customers L w df features k))"
  unfolding keeps_def segment_customers_def snd_try_except segment_customers_body_def
    fit_transform_def kmeans_fit_predict_def alloc_def store_def
  by (simp add: Let_def split: sum.splits prod.splits option.splits)

lemma runs_keeps: "runs L w w' \<Longrightarrow> keeps w w'"
proof (induction rule: runs.induct)
  case nothing
  show ?case by (rule keeps_refl)
next
  case (trends w1 df dc vc wd)
  then show ?case using detect_trends_keeps keeps_trans by blast
next
  case (anomalies w1 df columns c)
  then show ?case using detect_anomalies_keeps keeps_trans by blast
next
  case (segmentation w1 df features k)
  then show ?case using segment_customers_keeps keeps_trans by blast
next
  case (correlations w1 df selection)
  then show ?case using calculate_correlations_keeps keeps_trans by blast
next
  case (forecast w1 df dc vc periods)
  then show ?case using generate_forecast_keeps keeps_trans by blast
qed

subsection \<open>Results do not depend on the rest of the state\<close>

lemma detect_anomalies_body_indep:
  "df < nxt w \<Longrightarrow> df' < nxt w' \<Longrightarrow> heap w df = heap w' df' \<Longrightarrow>
   detector_random_state w = detector_random_state w' \<Longrightarrow>
   fst (detect_anomalies_body L w df columns c) = fst (detect_anomalies_body L w' df' columns c)"
  unfolding detect_anomalies_body_def fit_transform_def fit_predict_def predict_def
    decision_function_def alloc_def store_def
  by (simp add: Let_def split: sum.splits prod.splits option.splits)

lemma segment_customers_body_indep:
  "df < nxt w \<Longrightarrow> df' < nxt w' \<Longrightarrow> heap w df = heap w' df' \<Longrightarrow>
   segmenter_random_state w = segmenter_random_state w' \<Longrightarrow>
   fst (segment_customers_body L w df features k) = fst (segment_customers_body L w' df' features k)"
  unfolding segment_customers_body_def fit_transform_def kmeans_fit_predict_def alloc_def store_def
  by (simp add: Let_def split: sum.splits prod.splits option.splits)

section \<open>Determinism\<close>

text \<open>
  Claim C5. Every operation is deterministic across calls: whatever calls of the five
  operations, on whatever tables, lead from a state \<open>w\<close> to a state \<open>w'\<close>, an
  operation called in \<open>w'\<close> on a table that existed in \<open>w\<close> returns what it returns in
  \<open>w\<close> with the same parameters. The results of \<^verbatim>\<open>detect_anomalies\<close> hold the counts
  and the scores that follow from the labels and scores of the forest.
\<close>

theorem operations_deterministic:
  assumes "runs L w w'" and "df < nxt w"
  shows "fst (detect_trends L w' df date_column value_column window_days)
           = fst (detect_trends L w df date_column value_column window_days)
       \<and> fst (detect_anomalies L w' df columns contamination)
           = fst (detect_anomalies L w df columns contamination)
       \<and> fst (segment_customers L w' df features clusters)
           = fst (segment_customers L w df features clusters)
       \<and> fst (calculate_correlations L w' df selection)
           = fst (calculate_correlations L w df selection)
       \<and> fst (generate_forecast L w' df date_column value_column periods)
           = fst (generate_forecast L w df date_column value_column periods)"
proof -
  from runs_keeps[OF assms(1)] assms(2)
  have same: "heap w' df = heap w df" and there: "df < nxt w'"
    and d: "detector_random_state w' = detector_random_state w"
    and s: "segmenter_random_state w' = segmenter_random_state w"
    by (auto simp: keeps_def)
  have "fst (detect_anomalies_body L w' df columns contamination)
          = fst (detect_anomalies_body L w df columns contamination)"
    using there assms(2) same d by (rule detect_anomalies_body_indep)
  moreover have "fst (segment_customers_body L w' df features clusters)
          = fst (segment_customers_body L w df features clusters)"
    using there assms(2) same s by (rule segment_customers_body_indep)
  ultimately show ?thesis
    unfolding detect_trends_def detect_anomalies_def segment_customers_def
      calculate_correlations_def generate_forecast_def fst_try_except
      detect_trends_body_fst generate_forecast_body_fst calculate_correlations_body_fst same
    by simp
qed

theorem operations_deterministic_witness:
  "fst (detect_anomalies stub_library
          (snd (segment_customers stub_library
                  (snd (detect_anomalies stub_library
                          (world_with (series_table ''total'' [10, 20, 30])) 0 [''total''] 0.1))
                  0 [''total''] 1))
          0 [''total''] 0.1)
     = fst (detect_anomalies stub_library
              (world_with (series_table ''total'' [10, 20, 30])) 0 [''total''] 0.1)"
proof -
  let ?w = "world_with (series_table ''total'' [10, 20, 30])"
  have "runs stub_library ?w
          (snd (segment_customers stub_library
                  (snd (detect_anomalies stub_library ?w 0 [''total''] 0.1)) 0 [''total''] 1))"
    by (intro runs.segmentation runs.anomalies runs.nothing)
  moreover have "0 < nxt ?w" by (simp add: world_with_def init_def)
  ultimately show ?thesis
    using operations_deterministic[of stub_library ?w _ 0] by blast
qed

section \<open>Segmentation\<close>

lemma indicator_sum:
  "(\<Sum>i\<leftarrow>[0..<n]. if i = j then 1 else 0) = (if j < n then 1 else (0::nat))"
  by (induction n) auto

lemma count_one_label:
  assumes "0 \<le> l" and "l < k"
  shows "(\<Sum>i\<leftarrow>[0..<nat k]. if Num (real_of_int l) = Num (real i) then 1 else 0) = (1::nat)"
proof -
  have "\<And>i. (Num (real_of_int l) = Num (real i)) = (i = nat l)"
    using assms(1) by auto
  then have "(\<Sum>i\<leftarrow>[0..<nat k]. if Num (real_of_int l) = Num (real i) then 1 else 0)
           = (\<Sum>i\<leftarrow>[0..<nat k]. if i = nat l then 1 else (0::nat))"
    by simp
  also have "\<dots> = 1" using assms by (simp add: indicator_sum)
  finally show ?thesis .
qed

lemma count_labels:
  assumes "list_all (\<lambda>l. 0 \<le> l \<and> l < k) labels"
  shows "(\<Sum>i\<leftarrow>[0..<nat k].
            length (filter (\<lambda>c. c = Num (real i)) (map (\<lambda>l. Num (real_of_int l)) labels)))
         = length labels"
  using assms
proof (induction labels)
  case Nil
  show ?case by simp
next
  case (Cons l labels)
  then have l: "0 \<le> l" "l < k" and rest: "list_all (\<lambda>l. 0 \<le> l \<and> l < k) labels"
    by simp_all
  have "(\<Sum>i\<leftarrow>[0..<nat k].
            length (filter (\<lambda>c. c = Num (real i)) (map (\<lambda>l. Num (real_of_int l)) (l # labels))))
      = (\<Sum>i\<leftarrow>[0..<nat k]. (if Num (real_of_int l) = Num (real i) then 1 else 0)
            + length (filter (\<lambda>c. c = Num (real i)) (map (\<lambda>l. Num (real_of_int l)) labels)))"
    by (intro arg_cong[where f = sum_list] map_cong) auto
  also have "\<dots> = (\<Sum>i\<leftarrow>[0..<nat k]. if Num (real_of_int l) = Num (real i) then 1 else 0)
      + (\<Sum>i\<leftarrow>[0..<nat k].
            length (filter (\<lambda>c. c = Num (real i)) (map (\<lambda>l. Num (real_of_int l)) labels)))"
    by (simp add: sum_list_addf)
  also have "\<dots> = 1 + length labels"
    using count_one_label[OF l] Cons.IH[OF rest] by simp
  finally show ?case by simp
qed

lemma map2_upd_same:
  "length rs = length vs \<Longrightarrow> map (\<lambda>r. r c) (map2 (\<lambda>r v. r(c := v)) rs vs) = vs"
  by (induction rs vs rule: list_induct2) auto

lemma map2_upd_other:
  "length rs = length vs \<Longrightarrow> c \<noteq> d \<Longrightarrow>
   map (\<lambda>r. r d) (map2 (\<lambda>r v. r(c := v)) rs vs) = map (\<lambda>r. r d) rs"
  by (induction rs vs rule: list_induct2) auto

lemma column_setcol_same: "length vs = length (rows f) \<Longrightarrow> column (setcol f c vs) c = vs"
  using map2_upd_same[of "rows f" vs c] by (simp add: setcol_def column_def)

lemma column_setcol_other:
  "c \<noteq> d \<Longrightarrow> length vs = length (rows f) \<Longrightarrow> column (setcol f c vs) d = column f d"
  using map2_upd_other[of "rows f" vs c d] by (simp add: setcol_def column_def)

lemma setitem_Inr:
  assumes "setitem f c vs = Inr t"
  shows "length vs = length (rows f)" and "t = setcol f c vs"
    and "length (rows t) = length (rows f)" and "column t c = vs"
  using assms by (auto simp: setitem_def rows_setcol column_setcol_same split: if_splits)

lemma cluster_rows_length:
  "length (cluster_rows t i) = length (filter (\<lambda>c. c = Num (real i)) (column t ''cluster''))"
  by (simp add: cluster_rows_def column_def filter_map o_def)

text \<open>
  The loop over the cluster numbers: as many entries as clusters, and the sizes of the
  entries add up to the number of labelled rows, for any number of clusters.
\<close>

lemma cluster_entries_sizes:
  assumes "column t ''cluster'' = map (\<lambda>l. Num (real_of_int l)) labels"
    and "list_all (\<lambda>l. 0 \<le> l \<and> l < k) labels"
  shows "length (cluster_entries L t n features k) = nat k"
    and "map fst (cluster_entries L t n features k) = [0..<nat k]"
    and "sum_list (map (\<lambda>(i, ci). cluster_size ci) (cluster_entries L t n features k))
           = length labels"
proof -
  have size: "\<And>i. cluster_size (analyse_cluster L t n features i)
        = length (filter (\<lambda>c. c = Num (real i)) (map (\<lambda>l. Num (real_of_int l)) labels))"
    by (simp add: analyse_cluster_def Let_def cluster_rows_length assms(1))
  show "length (cluster_entries L t n features k) = nat k"
    "map fst (cluster_entries L t n features k) = [0..<nat k]"
    by (simp_all add: cluster_entries_def o_def)
  show "sum_list (map (\<lambda>(i, ci). cluster_size ci) (cluster_entries L t n features k))
           = length labels"
    using count_labels[OF assms(2)] by (simp add: cluster_entries_def o_def size)
qed

lemma segmentation_report_sizes:
  assumes "segmentation_report L t n features k km = Inr (Segmentation r)"
    and "column t ''cluster'' = map (\<lambda>l. Num (real_of_int l)) labels"
    and "list_all (\<lambda>l. 0 \<le> l \<and> l < k) labels"
  shows "length (cluster_details r) = nat k"
    and "length (cluster_analysis r) = nat k"
    and "sum_list (map detail_size (cluster_details r)) = length labels"
    and "sum_list (map (\<lambda>(i, ci). cluster_size ci) (cluster_analysis r)) = length labels"
    and "n_clusters r = k"
proof -
  from assms(1) have r: "r =
     \<lparr>n_clusters = k,
      cluster_analysis = map (\<lambda>i. (i, analyse_cluster L t n features i)) [0..<nat k],
      cluster_details = map (\<lambda>(i, ci). describe_cluster L features ci)
                          (map (\<lambda>i. (i, analyse_cluster L t n features i)) [0..<nat k]),
      cluster_centers = kmeans_centers L km,
      total_customers = n,
      features_used = features,
      segmentation_quality = kmeans_inertia L km,
      business_insights = []\<rparr>"
    by (simp add: segmentation_report_def cluster_entries_def Let_def split: if_splits)
  show "length (cluster_details r) = nat k" "length (cluster_analysis r) = nat k"
    "n_clusters r = k"
    by (simp_all add: r)
  have size: "\<And>i. cluster_size (analyse_cluster L t n features i)
        = length (filter (\<lambda>c. c = Num (real i)) (map (\<lambda>l. Num (real_of_int l)) labels))"
    by (simp add: analyse_cluster_def Let_def cluster_rows_length assms(2))
  show "sum_list (map detail_size (cluster_details r)) = length labels"
    using count_labels[OF assms(3)]
    by (simp add: r o_def describe_cluster_def Let_def size)
  show "sum_list (map (\<lambda>(i, ci). cluster_size ci) (cluster_analysis r)) = length labels"
    using count_labels[OF assms(3)]
    by (simp add: r o_def size)
qed

lemma segment_customers_success:
  assumes "fst (segment_customers L w df features k) = Inr (Segmentation r)" and "df < nxt w"
  shows "\<exists>seed X km t.
           kmeans_fit L k seed X = Inr km
         \<and> setitem (heap w df) ''cluster'' (map (\<lambda>l. Num (real_of_int l)) (kmeans_labels L km))
             = Inr t
         \<and> segmentation_report L t (length (rows (heap w df))) features k km
             = Inr (Segmentation r)"
  using assms
  unfolding segment_customers_def fst_try_except segment_customers_body_def fit_transform_def
    kmeans_fit_predict_def alloc_def store_def
  by (auto simp: Let_def split: sum.splits prod.splits option.splits if_splits)

text \<open>
  When \<^verbatim>\<open>segment_customers\<close> returns a segmentation, the result has as many cluster
  entries as clusters were asked for, and their sizes add up to the number of rows of the
  input table. The k-means of the library is taken to label every row with a cluster
  number from 0 up to the number of clusters, as scikit-learn documents it.
\<close>

lemma successful_segmentation_covers_rows:
  assumes "\<And>n seed X km. kmeans_fit L n seed X = Inr km
              \<Longrightarrow> list_all (\<lambda>l. 0 \<le> l \<and> l < n) (kmeans_labels L km)"
    and "df < nxt w"
    and "fst (segment_customers L w df features clusters) = Inr (Segmentation r)"
  shows "int (length (cluster_details r)) = clusters
       \<and> int (length (cluster_analysis r)) = clusters
       \<and> n_clusters r = clusters
       \<and> sum_list (map detail_size (cluster_details r)) = length (rows (heap w df))
       \<and> sum_list (map (\<lambda>(i, ci). cluster_size ci) (cluster_analysis r))
           = length (rows (heap w df))"
proof -
  from segment_customers_success[OF assms(3,2)] obtain seed X km t where
    fit: "kmeans_fit L clusters seed X = Inr km" and
    lab: "setitem (heap w df) ''cluster''
            (map (\<lambda>l. Num (real_of_int l)) (kmeans_labels L km)) = Inr t" and
    rep: "segmentation_report L t (length (rows (heap w df))) features clusters km
            = Inr (Segmentation r)"
    by blast
  have range: "list_all (\<lambda>l. 0 \<le> l \<and> l < clusters) (kmeans_labels L km)"
    using assms(1)[OF fit] .
  have len: "length (kmeans_labels L km) = length (rows (heap w df))"
    using setitem_Inr(1)[OF lab] by simp
  have col: "column t ''cluster'' = map (\<lambda>l. Num (real_of_int l)) (kmeans_labels L km)"
    using setitem_Inr(4)[OF lab] .
  note sizes = segmentation_report_sizes[OF rep col range]
  have "0 \<le> clusters"
  proof (cases "kmeans_labels L km")
    case Nil
    with len have "rows (heap w df) = []" by simp
    then have "\<exists>m. fst (segment_customers L w df features clusters) = Inr (Error m)"
      by (intro segment_customers_empty) (simp add: empty_frame_def)
    with assms(3) show ?thesis by auto
  next
    case (Cons l ls)
    with range show ?thesis by simp
  qed
  with sizes len show ?thesis by simp
qed

lemma single_cluster_covers_rows:
  "\<exists>r. fst (segment_customers stub_library (world_with (series_table ''age'' [10, 20, 30])) 0
              [''age''] 1) = Inr (Segmentation r)
      \<and> int (length (cluster_details r)) = 1
      \<and> sum_list (map detail_size (cluster_details r)) = 3"
proof -
  let ?w = "world_with (series_table ''age'' [10, 20, 30])"
  have contract: "\<And>n seed X km. kmeans_fit stub_library n seed X = Inr km
      \<Longrightarrow> list_all (\<lambda>l. 0 \<le> l \<and> l < n) (kmeans_labels stub_library km)"
    by (auto simp: stub_library_def list_all_iff split: if_splits)
  have there: "0 < nxt ?w" by (simp add: world_with_def init_def)
  have "\<exists>r. fst (segment_customers stub_library ?w 0 [''age''] 1) = Inr (Segmentation r)"
    by (simp add: segment_customers_def fst_try_except segment_customers_body_def
        numeric_selection_def getitem_list_def select_numeric_def is_numeric_column_def
        empty_frame_def fit_transform_def kmeans_fit_predict_def alloc_def store_def
        setitem_def setcol_def segmentation_report_def cluster_entries_def to_matrix_def
        fillna_mean_def
        world_with_def init_def series_table_def table_of_def stub_library_def Let_def)
  then obtain r where r: "fst (segment_customers stub_library ?w 0 [''age''] 1)
      = Inr (Segmentation r)" by blast
  from successful_segmentation_covers_rows[OF contract there r] r show ?thesis
    by (auto simp: world_with_def init_def series_table_def table_of_def)
qed

lemma segmentation_report_several:
  "2 \<le> k \<Longrightarrow> segmentation_report L t n features k km
     = Inl (TypeError ([CHR 0x27] @ ''bool'' @ [CHR 0x27] @ '' object is not iterable''))"
  by (simp add: segmentation_report_def cluster_entries_def Let_def)

text \<open>
  Claim C6. With two or more clusters \<^verbatim>\<open>segment_customers\<close> never returns a
  segmentation. The entries of the clusters are computed, as many as the clusters and
  with sizes that add up to the number of rows, but the search for high-value segments
  that follows calls \<^verbatim>\<open>any\<close> on a truth value; the \<open>TypeError\<close> is caught and the
  call returns an error result. That holds for the default of 4 clusters too.
\<close>

theorem segmentation_fails_for_several_clusters:
  assumes "2 \<le> clusters"
  shows "\<exists>m. fst (segment_customers L w df features clusters) = Inr (Error m)"
  unfolding segment_customers_def fst_try_except segment_customers_body_def
    fit_transform_def kmeans_fit_predict_def alloc_def store_def
  by (auto simp: Let_def segmentation_report_several[OF assms]
      split: sum.splits prod.splits option.splits if_splits)

theorem segmentation_fails_for_several_clusters_witness:
  "\<exists>m. fst (segment_customers stub_library
             (world_with (series_table ''age'' [10, 20, 30, 40])) 0 [''age''] 4)
        = Inr (Error m)"
  using segmentation_fails_for_several_clusters[of 4] by simp

text \<open>
  The four rows of this table are labelled, the four entries are computed, and the call
  returns the text of the \<open>TypeError\<close>.
\<close>

lemma default_segmentation_fails:
  "fst (segment_customers stub_library
          (world_with (series_table ''age'' [10, 20, 30, 40])) 0 [''age''] 4)
     = Inr (Error (''Customer segmentation failed: '' @ [CHR 0x27] @ ''bool'' @ [CHR 0x27]
                     @ '' object is not iterable''))"
  by (simp add: segment_customers_def fst_try_except segment_customers_body_def
      numeric_selection_def getitem_list_def select_numeric_def is_numeric_column_def
      empty_frame_def fit_transform_def kmeans_fit_predict_def alloc_def store_def
      setitem_def setcol_def segmentation_report_several to_matrix_def fillna_mean_def
      world_with_def init_def series_table_def table_of_def stub_library_def str_exn_def
      Let_def)

lemma real_size_thresholds:
  "(real n > real (3::nat) * 0.4) = (2 \<le> n)" "(real n < real (3::nat) * 0.1) = (n = 0)"
  by (cases n; cases "n - 1"; simp; linarith)+

lemma determine_cluster_type_by_size:
  assumes "filter (\<lambda>f. has_keyword f [''spent'', ''value'', ''amount'', ''revenue'', ''total''])
             features = []"
    and "filter (\<lambda>f. has_keyword f [''order'', ''count'', ''frequency'']) features = []"
  shows "determine_cluster_type ci features =
           (if 2 \<le> cluster_size ci then ''Mainstream Majority''
            else if cluster_size ci = 0 then ''Niche Minority''
            else ''Standard Segment'')"
  using assms
  by (simp add: determine_cluster_type_def Let_def len_cluster_info_def real_size_thresholds
      del: of_nat_numeral)

text \<open>
  Claim C2. Where no feature name suggests spending or order counts, the label of a
  cluster is decided by its number of rows alone, compared with 40 and 10 percent of the
  three keys of its dictionary: two or more rows give \<^verbatim>\<open>Mainstream Majority\<close>, one row
  gives \<^verbatim>\<open>Standard Segment\<close>. A table of one row, segmented into one cluster, gets the
  label \<^verbatim>\<open>Standard Segment\<close> for a cluster that holds all rows, and a cluster of 2 rows
  out of 100 is labelled \<^verbatim>\<open>Mainstream Majority\<close>.
\<close>

theorem cluster_type_compares_with_key_count:
  "(\<exists>r. fst (segment_customers stub_library (world_with (series_table ''age'' [10])) 0
              [''age''] 1) = Inr (Segmentation r)
      \<and> map detail_type (cluster_details r) = [''Standard Segment'']
      \<and> map detail_percentage (cluster_details r) = [100])
   \<and> determine_cluster_type
        \<lparr>cluster_size = 2, percentage = 2, characteristics = Map.empty\<rparr> [''age'']
       = ''Mainstream Majority''"
proof -
  have kw: "filter (\<lambda>f. has_keyword f [''spent'', ''value'', ''amount'', ''revenue'', ''total''])
              [''age''] = []"
    "filter (\<lambda>f. has_keyword f [''order'', ''count'', ''frequency'']) [''age''] = []"
    by (simp_all add: has_keyword_def lower_def lower_char_def)
  have "\<exists>r. fst (segment_customers stub_library (world_with (series_table ''age'' [10])) 0
              [''age''] 1) = Inr (Segmentation r)
      \<and> map detail_type (cluster_details r) = [''Standard Segment'']
      \<and> map detail_percentage (cluster_details r) = [100]"
    by (simp add: segment_customers_def fst_try_except segment_customers_body_def
        numeric_selection_def getitem_list_def select_numeric_def is_numeric_column_def
        empty_frame_def fit_transform_def kmeans_fit_predict_def alloc_def store_def
        setitem_def setcol_def segmentation_report_def cluster_entries_def to_matrix_def
        fillna_mean_def
        world_with_def init_def series_table_def table_of_def stub_library_def Let_def
        describe_cluster_def analyse_cluster_def cluster_rows_def
        determine_cluster_type_by_size[OF kw])
  moreover have "determine_cluster_type
        \<lparr>cluster_size = 2, percentage = 2, characteristics = Map.empty\<rparr> [''age'']
       = ''Mainstream Majority''"
    by (simp add: determine_cluster_type_by_size[OF kw])
  ultimately show ?thesis by blast
qed

section \<open>Moving averages\<close>

lemma numeric_column_Inr:
  assumes "numeric_column f c = Inr v"
  shows "v = map the_num (column f c)" and "c \<in> set (colnames f)"
    and "list_all is_Num (column f c)" and "length v = length (rows f)"
  using assms
  by (auto simp: numeric_column_def getitem_def column_def split: sum.splits if_splits)

lemma numeric_column_cong:
  assumes "column f c = column g c" and "c \<in> set (colnames f) \<longleftrightarrow> c \<in> set (colnames g)"
  shows "numeric_column f c = numeric_column g c"
  using assms by (simp add: numeric_column_def getitem_def column_def)

lemma colnames_setcol: "set (colnames (setcol f c vs)) = insert c (set (colnames f))"
  by (auto simp: setcol_def)

lemma last_rolling_mean:
  assumes "xs \<noteq> []"
  shows "last (rolling_mean k xs) = trailing_mean k xs"
proof -
  have n: "0 < length xs" using assms by simp
  then have "[0..<length xs] \<noteq> []" by simp
  then have "last (rolling_mean k xs) = mean (tail (int k) (take (Suc (last [0..<length xs])) xs))"
    by (simp add: rolling_mean_def last_map)
  also have "last [0..<length xs] = length xs - 1"
    using n by (metis One_nat_def Suc_pred' last_upt less_Suc_eq)
  also have "take (Suc (length xs - 1)) xs = xs" using n by simp
  also have "mean (tail (int k) xs) = trailing_mean k xs"
    by (simp add: mean_def tail_def trailing_mean_def min_def)
  finally show ?thesis .
qed

lemma derive_column_Inr:
  assumes "derive_column f name g vc = Inr t"
  shows "\<exists>v. numeric_column f vc = Inr v \<and> t = setcol f name (g v)"
  using assms by (auto simp: derive_column_def split: sum.splits)

lemma moving_average_columns:
  assumes "trend_columns f vc = Inr t" and "vc \<noteq> ''MA_7''"
  shows "column t ''MA_7'' = map Num (rolling_mean 7 (map the_num (column f vc)))"
    and "column t ''MA_30'' = map Num (rolling_mean 30 (map the_num (column f vc)))"
proof -
  from assms(1) obtain t1 t2 t3 where
    1: "derive_column f ''MA_7'' (\<lambda>v. map Num (rolling_mean 7 v)) vc = Inr t1" and
    2: "derive_column t1 ''MA_30'' (\<lambda>v. map Num (rolling_mean 30 v)) vc = Inr t2" and
    3: "derive_column t2 ''Daily_Growth'' (pct_change 1) vc = Inr t3" and
    4: "derive_column t3 ''Weekly_Growth'' (pct_change 7) vc = Inr t"
    by (auto simp: trend_columns_def and_then_def split: sum.splits)
  from derive_column_Inr[OF 1] obtain v1 where
    v1: "numeric_column f vc = Inr v1" and t1: "t1 = setcol f ''MA_7'' (map Num (rolling_mean 7 v1))"
    by blast
  from derive_column_Inr[OF 2] obtain v2 where
    v2: "numeric_column t1 vc = Inr v2" and t2: "t2 = setcol t1 ''MA_30'' (map Num (rolling_mean 30 v2))"
    by blast
  from derive_column_Inr[OF 3] obtain v3 where
    v3: "numeric_column t2 vc = Inr v3" and t3: "t3 = setcol t2 ''Daily_Growth'' (pct_change 1 v3)"
    by blast
  from derive_column_Inr[OF 4] obtain v4 where
    v4: "numeric_column t3 vc = Inr v4" and t: "t = setcol t3 ''Weekly_Growth'' (pct_change 7 v4)"
    by blast
  note l1 = numeric_column_Inr(4)[OF v1] and l2 = numeric_column_Inr(4)[OF v2]
    and l3 = numeric_column_Inr(4)[OF v3] and l4 = numeric_column_Inr(4)[OF v4]
  have e1: "v1 = map the_num (column f vc)" using numeric_column_Inr(1)[OF v1] .
  have "column t1 vc = column f vc"
    unfolding t1 using assms(2) l1 by (intro column_setcol_other) simp_all
  then have e2: "v2 = v1"
    using numeric_column_Inr(1)[OF v2] e1 by simp
  have "column t ''MA_7'' = column t3 ''MA_7''"
    unfolding t using l4 by (intro column_setcol_other) simp_all
  also have "\<dots> = column t2 ''MA_7''"
    unfolding t3 using l3 by (intro column_setcol_other) simp_all
  also have "\<dots> = column t1 ''MA_7''"
    unfolding t2 using l2 by (intro column_setcol_other) simp_all
  also have "\<dots> = map Num (rolling_mean 7 v1)"
    unfolding t1 using l1 by (intro column_setcol_same) simp
  finally show "column t ''MA_7'' = map Num (rolling_mean 7 (map the_num (column f vc)))"
    by (simp add: e1)
  have "column t ''MA_30'' = column t3 ''MA_30''"
    unfolding t using l4 by (intro column_setcol_other) simp_all
  also have "\<dots> = column t2 ''MA_30''"
    unfolding t3 using l3 by (intro column_setcol_other) simp_all
  also have "\<dots> = map Num (rolling_mean 30 v2)"
    unfolding t2 using l2 by (intro column_setcol_same) simp
  finally show "column t ''MA_30'' = map Num (rolling_mean 30 (map the_num (column f vc)))"
    by (simp add: e1 e2)
qed

lemma detect_trends_success:
  assumes "fst (detect_trends L w df dc vc wd) = Inr (Trend r)"
  shows "\<exists>valid t. valid_rows L (heap w df) dc vc = Inr valid \<and> 2 \<le> length (rows valid)
           \<and> trend_columns (sort_values L valid dc) vc = Inr t
           \<and> trend_summary t dc vc wd = Inr (Trend r)"
  using assms
  unfolding detect_trends_def fst_try_except detect_trends_body_fst and_then_def
  by (auto split: sum.splits if_splits)

lemma trend_summary_averages:
  assumes "trend_summary t dc vc wd = Inr (Trend r)"
  shows "moving_average_7_day r = last (column t ''MA_7'')"
    and "moving_average_30_day r = last (column t ''MA_30'')"
    and "data_points r = length (rows t)"
  using assms
  unfolding trend_summary_def
  by (auto simp: Let_def split: sum.splits if_splits)

text \<open>
  The moving averages that \<^verbatim>\<open>detect_trends\<close> reports are the trailing means of the
  date-sorted series whenever the value column is not itself labelled \<^verbatim>\<open>MA_7\<close>.
\<close>

lemma moving_averages_are_trailing_means:
  assumes "fst (detect_trends L w df date_column value_column window_days) = Inr (Trend r)"
    and "value_column \<noteq> ''MA_7''"
  shows "\<exists>valid. valid_rows L (heap w df) date_column value_column = Inr valid
           \<and> 2 \<le> length (rows valid)
           \<and> data_points r = length (rows valid)
           \<and> moving_average_7_day r
               = Num (trailing_mean 7 (sorted_series L valid date_column value_column))
           \<and> moving_average_30_day r
               = Num (trailing_mean 30 (sorted_series L valid date_column value_column))"
proof -
  from detect_trends_success[OF assms(1)] obtain valid t where
    valid: "valid_rows L (heap w df) date_column value_column = Inr valid" and
    two: "2 \<le> length (rows valid)" and
    cols: "trend_columns (sort_values L valid date_column) value_column = Inr t" and
    summary: "trend_summary t date_column value_column window_days = Inr (Trend r)"
    by blast
  let ?ys = "sorted_series L valid date_column value_column"
  have len: "length ?ys = length (rows valid)"
    by (simp add: sorted_series_def column_def rows_sort_values)
  then have ne: "?ys \<noteq> []" "rolling_mean 7 ?ys \<noteq> []" "rolling_mean 30 ?ys \<noteq> []"
    using two by (auto simp flip: length_0_conv)
  have rows_t: "length (rows t) = length (rows valid)"
    using trend_columns_rows[OF cols] by (simp add: rows_sort_values)
  note ma = moving_average_columns[OF cols assms(2), folded sorted_series_def]
  have "moving_average_7_day r = Num (trailing_mean 7 ?ys)"
    using trend_summary_averages(1)[OF summary] ne
    by (simp add: ma last_map last_rolling_mean)
  moreover have "moving_average_30_day r = Num (trailing_mean 30 ?ys)"
    using trend_summary_averages(2)[OF summary] ne
    by (simp add: ma last_map last_rolling_mean)
  ultimately show ?thesis
    using valid two trend_summary_averages(3)[OF summary] rows_t by simp
qed

lemmas run_table_defs =
  world_with_def init_def series_table_def table_of_def stub_library_def
  valid_rows_def parse_dates_def getitem_def setcol_def dropna_def and_then_def
  to_datetime_def sort_values_def column_def numeric_column_def derive_column_def

lemma upt_2: "[0..<2] = [0, Suc 0]"
  by (simp add: numeral_2_eq_2)

text \<open>
  Claim C7. On a table whose value column is labelled \<^verbatim>\<open>MA_7\<close>, with the values 0
  and 2, \<^verbatim>\<open>detect_trends\<close> succeeds and reports 1 as the 7-day and 1/2 as the 30-day
  moving average, while the mean of the trailing values of the series is 1 for both
  windows: the first assignment overwrites the value column with its moving average, and
  the 30-day average is computed from the overwritten column.
\<close>

theorem moving_average_30_reads_overwritten_column:
  "\<exists>r valid.
      fst (detect_trends stub_library (world_with (series_table ''MA_7'' [0, 2])) 0
             ''date'' ''MA_7'' 30) = Inr (Trend r)
    \<and> valid_rows stub_library (heap (world_with (series_table ''MA_7'' [0, 2])) 0)
             ''date'' ''MA_7'' = Inr valid
    \<and> sorted_series stub_library valid ''date'' ''MA_7'' = [0, 2]
    \<and> trailing_mean 7 [0, 2] = 1
    \<and> trailing_mean 30 [0, 2] = 1
    \<and> moving_average_7_day r = Num 1
    \<and> moving_average_30_day r = Num (1 / 2)"
  by (simp add: detect_trends_def fst_try_except detect_trends_body_fst run_table_defs
      sorted_series_def trailing_mean_def trend_columns_def trend_summary_def
      dt_dayofweek_def rolling_mean_def pct_change_def tail_def mean_def Let_def upt_2)

section \<open>Anomaly detection\<close>

lemma map_insort_key: "map f (insort_key f x xs) = insort (f x) (map f xs)"
  by (induction xs) auto

lemma map_sort_key: "map f (sort_key f xs) = sort (map f xs)"
  by (induction xs) (simp_all add: map_insort_key)

lemma flagged_scores:
  "map fst (filter snd (zip scores (map (\<lambda>l. l = - 1)
       (map (\<lambda>s. if s < 0 then - 1 else (1::int)) scores))))
   = filter (\<lambda>s. s < 0) scores"
  by (induction scores) auto

lemma map_of_record:
  "c \<in> set cols \<Longrightarrow> map_of (map (\<lambda>c'. (c', r c')) cols) c = Some (r c)"
  by (induction cols) auto

lemma detect_anomalies_success:
  assumes "fst (detect_anomalies L w df columns c) = Inr (Anomaly r)" and "df < nxt w"
  shows "\<exists>fo X flagged scored.
           boolean_index (heap w df)
             (map (\<lambda>l. l = - 1) (map (\<lambda>s. if s < 0 then - 1 else (1::int)) (forest_decision L fo X)))
             = Inr flagged
         \<and> setitem flagged ''anomaly_score''
             (map (Num \<circ> fst) (filter snd (zip (forest_decision L fo X)
                (map (\<lambda>l. l = - 1)
                   (map (\<lambda>s. if s < 0 then - 1 else (1::int)) (forest_decision L fo X))))))
             = Inr scored
         \<and> r = anomaly_report (heap w df) scored (forest_decision L fo X)"
  using assms
  unfolding detect_anomalies_def fst_try_except detect_anomalies_body_def fit_transform_def
    fit_predict_def predict_def decision_function_def alloc_def store_def
  apply (clarsimp simp: Let_def split: sum.splits prod.splits option.splits if_splits)
  apply (intro exI conjI)
    apply assumption+
  apply (rule refl)
  done

text \<open>
  What \<^verbatim>\<open>top_anomalies\<close> holds in every result: of the rows with a negative score
  (the rows labelled as outliers), the five with the highest scores, highest first. The
  scores are those of the forest for the rows of the table.
\<close>

lemma top_anomalies_have_highest_scores:
  assumes "fst (detect_anomalies L w df columns c) = Inr (Anomaly r)" and "df < nxt w"
  shows "\<exists>scores. length scores = length (rows (heap w df))
           \<and> anomaly_count r = length (filter (\<lambda>s. s < 0) scores)
           \<and> map (\<lambda>record. map_of record ''anomaly_score'') (top_anomalies r)
               = map (\<lambda>s. Some (Num (- s)))
                   (take 5 (sort (map uminus (filter (\<lambda>s. s < 0) scores))))"
proof -
  from detect_anomalies_success[OF assms] obtain fo X flagged scored where
    flagged: "boolean_index (heap w df)
        (map (\<lambda>l. l = - 1) (map (\<lambda>s. if s < 0 then - 1 else (1::int)) (forest_decision L fo X)))
        = Inr flagged" and
    scored: "setitem flagged ''anomaly_score''
        (map (Num \<circ> fst) (filter snd (zip (forest_decision L fo X)
           (map (\<lambda>l. l = - 1)
              (map (\<lambda>s. if s < 0 then - 1 else (1::int)) (forest_decision L fo X))))))
        = Inr scored" and
    r: "r = anomaly_report (heap w df) scored (forest_decision L fo X)"
    by blast
  let ?scores = "forest_decision L fo X"
  let ?neg = "filter (\<lambda>s. s < 0) ?scores"
  let ?c = "''anomaly_score''"
  have len: "length ?scores = length (rows (heap w df))"
    using flagged by (simp add: boolean_index_def split: if_splits)
  have col: "column scored ?c = map Num ?neg"
    using setitem_Inr(4)[OF scored] by (simp add: flagged_scores flip: map_map)
  then have count: "length (rows scored) = length ?neg"
    by (metis column_def length_map)
  have incols: "?c \<in> set (colnames scored)"
    using setitem_Inr(2)[OF scored] by (simp add: colnames_setcol)
  have num: "\<And>row. row \<in> set (rows scored) \<Longrightarrow> row ?c = Num (the_num (row ?c))"
  proof -
    fix row assume "row \<in> set (rows scored)"
    then have "row ?c \<in> set (column scored ?c)" by (auto simp: column_def)
    then show "row ?c = Num (the_num (row ?c))" unfolding col by auto
  qed
  have keys: "map (\<lambda>row. - the_num (row ?c)) (rows scored) = map uminus ?neg"
  proof -
    have "map (\<lambda>row. - the_num (row ?c)) (rows scored)
        = map (\<lambda>x. - the_num x) (column scored ?c)"
      by (simp add: column_def o_def)
    then show ?thesis by (simp add: col o_def)
  qed
  let ?top = "take 5 (sort_key (\<lambda>row. - the_num (row ?c)) (rows scored))"
  have "map (\<lambda>record. map_of record ?c) (top_anomalies r)
      = map (\<lambda>row. Some (row ?c)) ?top"
    by (simp add: r anomaly_report_def to_records_def nlargest_def o_def map_of_record[OF incols])
  also have "\<dots> = map (\<lambda>row. Some (Num (- (- the_num (row ?c))))) ?top"
  proof (rule map_cong[OF refl])
    fix row assume "row \<in> set ?top"
    then have "row \<in> set (rows scored)" by (auto dest: in_set_takeD)
    from num[OF this] show "Some (row ?c) = Some (Num (- (- the_num (row ?c))))" by simp
  qed
  also have "\<dots> = map (\<lambda>s. Some (Num (- s))) (map (\<lambda>row. - the_num (row ?c)) ?top)"
    by (simp add: o_def)
  also have "map (\<lambda>row. - the_num (row ?c)) ?top = take 5 (sort (map uminus ?neg))"
    by (simp add: map_sort_key keys flip: take_map)
  finally have top: "map (\<lambda>record. map_of record ?c) (top_anomalies r)
      = map (\<lambda>s. Some (Num (- s))) (take 5 (sort (map uminus ?neg)))" .
  have "anomaly_count r = length ?neg"
    by (simp add: r anomaly_report_def count)
  with len top show ?thesis by blast
qed

text \<open>
  Claim C1. On a table of seven rows of which the forest scores six negatively, with the
  scores -6 to -1, \<^verbatim>\<open>detect_anomalies\<close> reports six anomalies and lists as
  \<^verbatim>\<open>top_anomalies\<close> the rows with the scores -1, -2, -3, -4 and -5 in this order: the
  row with the lowest score, the most abnormal one for the forest, is the one left out.
\<close>

theorem top_anomalies_omit_lowest_score:
  "\<exists>r. fst (detect_anomalies stub_library
              (world_with (table_of [''x'']
                 [[Num (- 6)], [Num (- 5)], [Num (- 4)], [Num (- 3)], [Num (- 2)], [Num (- 1)],
                  [Num 21]]))
              0 [''x''] 0.1) = Inr (Anomaly r)
      \<and> total_records r = 7
      \<and> anomaly_count r = 6
      \<and> map (\<lambda>record. map_of record ''anomaly_score'') (top_anomalies r)
          = [Some (Num (- 1)), Some (Num (- 2)), Some (Num (- 3)), Some (Num (- 4)),
             Some (Num (- 5))]"
  by (simp add: detect_anomalies_def fst_try_except detect_anomalies_body_def
      numeric_selection_def getitem_list_def select_numeric_def is_numeric_column_def
      empty_frame_def fit_transform_def fit_predict_def predict_def decision_function_def
      alloc_def store_def boolean_index_def setitem_def setcol_def to_matrix_def
      fillna_mean_def anomaly_report_def to_records_def nlargest_def
      world_with_def init_def table_of_def stub_library_def Let_def)

section \<open>Correlations\<close>

lemma pearson_commute: "pearson a b = pearson b a"
proof -
  let ?P = "\<lambda>(x, y). x \<noteq> Null \<and> y \<noteq> Null"
  have z: "filter ?P (zip b a) = map prod.swap (filter ?P (zip a b))"
  proof -
    have "zip b a = map prod.swap (zip a b)"
      by (subst zip_commute) (simp add: prod.swap_def case_prod_unfold)
    then show ?thesis
      by (simp add: filter_map o_def case_prod_unfold conj_commute)
  qed
  show ?thesis
    unfolding pearson_def z Let_def
    by (simp add: o_def map2_map_map mult.commute)
qed

lemma sum_squares_zero_iff:
  "sum_list (map (\<lambda>x. (x - m)\<^sup>2) xs) = 0 \<longleftrightarrow> (\<forall>x\<in>set xs. x = (m::real))"
proof -
  have "sum_list (map (\<lambda>x. (x - m)\<^sup>2) xs) = 0 \<longleftrightarrow> (\<forall>v\<in>set (map (\<lambda>x. (x - m)\<^sup>2) xs). v = 0)"
    by (rule sum_list_nonneg_eq_0_iff) auto
  then show ?thesis by auto
qed

lemma mean_constant:
  assumes "xs \<noteq> []" and "\<forall>x\<in>set xs. x = c"
  shows "mean xs = c"
proof -
  from assms(2) have "xs = replicate (length xs) c"
    by (metis replicate_eqI)
  then have "sum_list xs = real (length xs) * c"
    by (metis sum_list_replicate)
  with assms(1) show ?thesis by (simp add: mean_def)
qed

lemma deviations_zero_iff:
  assumes "xs \<noteq> []"
  shows "sum_list (map (\<lambda>x. (x - mean xs)\<^sup>2) xs) = 0 \<longleftrightarrow> (\<forall>x\<in>set xs. x = hd xs)"
proof
  assume "sum_list (map (\<lambda>x. (x - mean xs)\<^sup>2) xs) = 0"
  then have all: "\<forall>x\<in>set xs. x = mean xs" by (simp add: sum_squares_zero_iff)
  with assms have "hd xs = mean xs" by simp
  with all show "\<forall>x\<in>set xs. x = hd xs" by simp
next
  assume "\<forall>x\<in>set xs. x = hd xs"
  with mean_constant[OF assms this] show "sum_list (map (\<lambda>x. (x - mean xs)\<^sup>2) xs) = 0"
    by (simp add: sum_squares_zero_iff)
qed

lemma pearson_self:
  assumes "list_all (\<lambda>c. is_Num c \<or> c = Null) cs"
  shows "pearson cs cs = (if varies cs then Num 1 else Null)"
proof -
  let ?vs = "filter (\<lambda>c. c \<noteq> Null) cs"
  let ?xs = "map the_num ?vs"
  let ?S = "sum_list (map (\<lambda>x. (x - mean ?xs)\<^sup>2) ?xs)"
  have both: "filter (\<lambda>(x, y). x \<noteq> Null \<and> y \<noteq> Null) (zip cs cs) = map (\<lambda>c. (c, c)) ?vs"
    by (simp add: zip_same_conv_map filter_map o_def)
  have sxy: "sum_list (map2 (\<lambda>x y. (x - mean ?xs) * (y - mean ?xs)) ?xs ?xs) = ?S"
    by (simp add: zip_same_conv_map o_def power2_eq_square)
  have S0: "0 \<le> ?S" by (rule sum_list_nonneg) auto
  have p: "pearson cs cs = (if ?vs = [] \<or> ?S = 0 then Null else Num 1)"
    unfolding pearson_def Let_def both
    using S0 by (simp add: o_def sxy real_sqrt_mult_self)
  have nums: "\<forall>c\<in>set ?vs. is_Num c"
    using assms by (auto simp: list_all_iff)
  have v: "varies cs \<longleftrightarrow> \<not> (?vs = [] \<or> ?S = 0)"
  proof (cases "?vs = []")
    case True
    then show ?thesis by (simp add: varies_def)
  next
    case False
    then have ne: "?xs \<noteq> []" by simp
    have hd: "hd ?xs = the_num (hd ?vs)" using False by (simp add: hd_map)
    have hdnum: "is_Num (hd ?vs)" using False nums by (meson hd_in_set)
    have "(\<forall>x\<in>set ?xs. x = hd ?xs) \<longleftrightarrow> (\<forall>c\<in>set ?vs. c = hd ?vs)"
    proof
      assume a: "\<forall>x\<in>set ?xs. x = hd ?xs"
      show "\<forall>c\<in>set ?vs. c = hd ?vs"
      proof
        fix c assume c: "c \<in> set ?vs"
        then have "the_num c = the_num (hd ?vs)" using a hd by auto
        moreover have "is_Num c" using c nums by blast
        ultimately show "c = hd ?vs" using hdnum by (cases c; cases "hd ?vs"; simp)
      qed
    next
      assume "\<forall>c\<in>set ?vs. c = hd ?vs"
      then show "\<forall>x\<in>set ?xs. x = hd ?xs" using hd by auto
    qed
    then show ?thesis
      using False deviations_zero_iff[OF ne]
      by (auto simp: varies_def Let_def list_ex_iff)
  qed
  show ?thesis using p v by auto
qed

lemma map_of_graph:
  "map_of (map (\<lambda>x. (x, g x)) xs) y = (if y \<in> set xs then Some (g y) else None)"
  by (induction xs) auto

lemma map_nth_names: "map (\<lambda>i. g (xs ! i)) [0..<length xs] = map g xs"
  by (simp add: map_equality_iff)

lemma corr_nth:
  assumes "i < length (colnames f)" and "j < length (colnames f)"
  shows "corr f ! i ! j = pearson (column f (colnames f ! i)) (column f (colnames f ! j))"
  using assms by (simp add: corr_def)

lemma to_dict_corr:
  "to_dict (colnames f) (corr f) =
     map (\<lambda>b. (b, map (\<lambda>a. (a, pearson (column f a) (column f b))) (colnames f))) (colnames f)"
proof -
  let ?n = "length (colnames f)"
  have "to_dict (colnames f) (corr f) =
      map (\<lambda>j. (colnames f ! j,
                 map (\<lambda>i. (colnames f ! i,
                            pearson (column f (colnames f ! i)) (column f (colnames f ! j))))
                   [0..<?n])) [0..<?n]"
    unfolding to_dict_def by (intro map_cong refl) (simp add: corr_nth)
  also have "\<dots> = map (\<lambda>j. (colnames f ! j,
                 map (\<lambda>a. (a, pearson (column f a) (column f (colnames f ! j)))) (colnames f)))
               [0..<?n]"
    by (simp add: map_nth_names[where g = "\<lambda>a. (a, pearson (column f a) (column f _))"])
  also have "\<dots> = map (\<lambda>b. (b, map (\<lambda>a. (a, pearson (column f a) (column f b))) (colnames f)))
               (colnames f)"
    by (rule map_nth_names[where g = "\<lambda>b. (b, map (\<lambda>a. (a, pearson (column f a) (column f b)))
               (colnames f))"])
  finally show ?thesis .
qed

lemma matrix_entry_corr:
  "matrix_entry (to_dict (colnames f) (corr f)) a b =
     (if a \<in> set (colnames f) \<and> b \<in> set (colnames f)
      then Some (pearson (column f a) (column f b)) else None)"
  by (simp add: matrix_entry_def to_dict_corr map_of_graph)

lemma strong_pairs_mem:
  assumes "s \<in> set (strong_pairs names m)"
  shows "\<exists>i j. i < j \<and> j < length names \<and> is_strong (m ! i ! j)
           \<and> variable1 s = names ! i \<and> variable2 s = names ! j
           \<and> correlation s = the_num (m ! i ! j)"
proof -
  from assms obtain i j where "i < length names" "Suc i \<le> j" "j < length names"
    "is_strong (m ! i ! j)"
    "s = \<lparr>variable1 = names ! i, variable2 = names ! j,
          correlation = the_num (m ! i ! j),
          strength = (if the_num (m ! i ! j) > 0 then ''strong positive''
                      else ''strong negative''),
          variable1_display = variable_name (names ! i),
          variable2_display = variable_name (names ! j),
          interpretation_text =
            interpret_correlation (names ! i) (names ! j) (the_num (m ! i ! j))\<rparr>"
    by (auto simp: strong_pairs_def Let_def split: if_splits)
  then show ?thesis by (intro exI[of _ i] exI[of _ j]) simp
qed

lemma is_strong_Num: "is_strong c \<Longrightarrow> c = Num (the_num c) \<and> \<bar>the_num c\<bar> > 0.7"
  by (cases c) (simp_all add: is_strong_def)

lemma calculate_correlations_success:
  assumes "fst (calculate_correlations L w df selection) = Inr (Correlation r)"
  shows "\<exists>nd. r = correlation_report nd \<and> rows nd = rows (heap w df)
           \<and> list_all (is_numeric_column nd) (colnames nd)"
proof -
  have sel: "\<And>f. rows (select_numeric f) = rows f
               \<and> list_all (is_numeric_column (select_numeric f)) (colnames (select_numeric f))"
    by (simp add: select_numeric_def is_numeric_column_def list_all_iff)
  have "\<exists>nd. r = correlation_report nd
          \<and> ((selection = None \<and> nd = select_numeric (heap w df))
              \<or> (\<exists>cs. nd = select_numeric ((heap w df)\<lparr>colnames := cs\<rparr>)))"
    using assms
    unfolding calculate_correlations_def fst_try_except calculate_correlations_body_fst
      and_then_def numeric_selection_def getitem_list_def
    by (auto split: sum.splits option.splits if_splits list.splits)
  then obtain nd where r: "r = correlation_report nd" and
    nd: "nd = select_numeric (heap w df) \<or> (\<exists>cs. nd = select_numeric ((heap w df)\<lparr>colnames := cs\<rparr>))"
    by blast
  from nd sel have "rows nd = rows (heap w df)
      \<and> list_all (is_numeric_column nd) (colnames nd)"
    by (metis frame.select_convs(2) frame.surjective frame.update_convs(1))
  with r show ?thesis by blast
qed

text \<open>
  Claim C3, as amended. When \<^verbatim>\<open>calculate_correlations\<close> succeeds, the returned matrix
  is symmetric; its diagonal entry is 1 for every analysed column that varies and NaN
  for an analysed column that is constant or has no value; and every pair in
  \<^verbatim>\<open>strong_correlations\<close> has a coefficient of absolute value above 0.7 that is the
  entry of the matrix for the pair.
\<close>

theorem correlation_matrix_properties:
  assumes "fst (calculate_correlations L w df selection) = Inr (Correlation r)"
  shows "(\<forall>a b. matrix_entry (correlation_matrix r) a b = matrix_entry (correlation_matrix r) b a)
       \<and> (\<forall>a\<in>set (map fst (correlation_matrix r)).
            matrix_entry (correlation_matrix r) a a
              = Some (if varies (column (heap w df) a) then Num 1 else Null))
       \<and> (\<forall>s\<in>set (strong_correlations r).
            \<bar>correlation s\<bar> > 0.7
            \<and> matrix_entry (correlation_matrix r) (variable1 s) (variable2 s)
                = Some (Num (correlation s)))"
proof -
  from calculate_correlations_success[OF assms] obtain nd where
    r: "r = correlation_report nd" and rows: "rows nd = rows (heap w df)" and
    numeric: "list_all (is_numeric_column nd) (colnames nd)"
    by blast
  have m: "correlation_matrix r = to_dict (colnames nd) (corr nd)"
    and s: "strong_correlations r = strong_pairs (colnames nd) (corr nd)"
    by (simp_all add: r correlation_report_def Let_def)
  have names: "map fst (correlation_matrix r) = colnames nd"
    by (simp add: m to_dict_corr o_def)
  have col: "\<And>a. column nd a = column (heap w df) a"
    by (simp add: column_def rows)
  have symmetric: "\<forall>a b. matrix_entry (correlation_matrix r) a b
                        = matrix_entry (correlation_matrix r) b a"
    by (simp add: m matrix_entry_corr pearson_commute conj_commute)
  have diagonal: "\<forall>a\<in>set (map fst (correlation_matrix r)).
      matrix_entry (correlation_matrix r) a a
        = Some (if varies (column (heap w df) a) then Num 1 else Null)"
  proof
    fix a assume "a \<in> set (map fst (correlation_matrix r))"
    then have a: "a \<in> set (colnames nd)" by (simp add: names)
    with numeric have "is_numeric_column nd a" by (simp add: list_all_iff)
    then have "list_all (\<lambda>c. is_Num c \<or> c = Null) (column nd a)"
      by (simp add: is_numeric_column_def column_def list_all_iff)
    from pearson_self[OF this] a
    show "matrix_entry (correlation_matrix r) a a
        = Some (if varies (column (heap w df) a) then Num 1 else Null)"
      by (simp add: m matrix_entry_corr col)
  qed
  have strong: "\<forall>s\<in>set (strong_correlations r).
      \<bar>correlation s\<bar> > 0.7
      \<and> matrix_entry (correlation_matrix r) (variable1 s) (variable2 s)
          = Some (Num (correlation s))"
  proof
    fix st assume "st \<in> set (strong_correlations r)"
    then have "st \<in> set (strong_pairs (colnames nd) (corr nd))" by (simp add: s)
    from strong_pairs_mem[OF this] obtain i j where
      ij: "i < j" "j < length (colnames nd)" and st: "is_strong (corr nd ! i ! j)"
      and v: "variable1 st = colnames nd ! i" "variable2 st = colnames nd ! j"
        "correlation st = the_num (corr nd ! i ! j)"
      by blast
    from ij have i: "i < length (colnames nd)" by simp
    have e: "corr nd ! i ! j
        = pearson (column nd (colnames nd ! i)) (column nd (colnames nd ! j))"
      using corr_nth[OF i ij(2)] .
    from is_strong_Num[OF st] i ij(2)
    show "\<bar>correlation st\<bar> > 0.7
      \<and> matrix_entry (correlation_matrix r) (variable1 st) (variable2 st)
          = Some (Num (correlation st))"
      by (simp add: m matrix_entry_corr v e)
  qed
  from symmetric diagonal strong show ?thesis by blast
qed

theorem correlation_matrix_properties_witness:
  "\<exists>r. fst (calculate_correlations stub_library
              (world_with (table_of [''price'', ''qty''] [[Num 5, Num 1], [Num 5, Num 2]]))
              0 None) = Inr (Correlation r)
      \<and> matrix_entry (correlation_matrix r) ''qty'' ''qty'' = Some (Num 1)
      \<and> matrix_entry (correlation_matrix r) ''price'' ''qty''
          = matrix_entry (correlation_matrix r) ''qty'' ''price''"
proof -
  let ?w = "world_with (table_of [''price'', ''qty''] [[Num 5, Num 1], [Num 5, Num 2]])"
  have "\<exists>r. fst (calculate_correlations stub_library ?w 0 None) = Inr (Correlation r)
          \<and> map fst (correlation_matrix r) = [''price'', ''qty'']"
    by (simp add: calculate_correlations_def fst_try_except calculate_correlations_body_fst
        and_then_def select_numeric_def is_numeric_column_def empty_frame_def
        correlation_report_def to_dict_def world_with_def init_def table_of_def upt_2 Let_def)
  then obtain r where r: "fst (calculate_correlations stub_library ?w 0 None)
      = Inr (Correlation r)" and names: "map fst (correlation_matrix r) = [''price'', ''qty'']"
    by (elim exE conjE)
  have v: "varies (column (heap ?w 0) ''qty'')"
    by (simp add: varies_def column_def world_with_def init_def table_of_def)
  from correlation_matrix_properties[OF r] have
    sym: "matrix_entry (correlation_matrix r) ''price'' ''qty''
            = matrix_entry (correlation_matrix r) ''qty'' ''price''" and
    diag: "\<forall>a\<in>set (map fst (correlation_matrix r)).
            matrix_entry (correlation_matrix r) a a
              = Some (if varies (column (heap ?w 0) a) then Num 1 else Null)"
    by blast+
  from diag have "matrix_entry (correlation_matrix r) ''qty'' ''qty''
      = Some (if varies (column (heap ?w 0) ''qty'') then Num 1 else Null)"
    unfolding names by simp
  with v have "matrix_entry (correlation_matrix r) ''qty'' ''qty'' = Some (Num 1)"
    by simp
  with r sym show ?thesis by (intro exI[of _ r] conjI)
qed

text \<open>
  The claim as it was stated fails on a table with a constant column: the call succeeds,
  and the diagonal entry of the constant column is NaN, not 1.
\<close>

theorem constant_column_has_nan_diagonal:
  "\<exists>r. fst (calculate_correlations stub_library
              (world_with (table_of [''price'', ''qty''] [[Num 5, Num 1], [Num 5, Num 2]]))
              0 None) = Inr (Correlation r)
      \<and> matrix_entry (correlation_matrix r) ''price'' ''price'' = Some Null
      \<and> matrix_entry (correlation_matrix r) ''price'' ''price'' \<noteq> Some (Num 1)"
proof -
  let ?t = "table_of [''price'', ''qty''] [[Num 5, Num 1], [Num 5, Num 2]]"
  have nd: "select_numeric ?t = ?t"
    by (simp add: select_numeric_def is_numeric_column_def table_of_def)
  have "pearson (column ?t ''price'') (column ?t ''price'') = Null"
    by (subst pearson_self) (simp_all add: column_def table_of_def varies_def)
  then have "matrix_entry (correlation_matrix (correlation_report ?t)) ''price'' ''price''
      = Some Null"
    by (simp add: correlation_report_def Let_def matrix_entry_corr) (simp add: table_of_def)
  moreover have "fst (calculate_correlations stub_library (world_with ?t) 0 None)
      = Inr (Correlation (correlation_report ?t))"
    by (simp add: calculate_correlations_def fst_try_except calculate_correlations_body_fst
        and_then_def world_with_def init_def nd) (simp add: empty_frame_def table_of_def)
  ultimately show ?thesis by simp
qed

section \<open>The order of the sorted rows\<close>

lemma filter_same_key:
  "distinct (map f xs) \<Longrightarrow> k \<in> set xs \<Longrightarrow> filter (\<lambda>x. f k = f x) xs = [k]"
proof (induction xs)
  case Nil
  then show ?case by simp
next
  case (Cons a xs)
  show ?case
  proof (cases "k = a")
    case True
    have "filter (\<lambda>x. f a = f x) xs = []"
      using Cons.prems(1) by (auto simp: filter_empty_conv)
    with True show ?thesis by simp
  next
    case False
    with Cons.prems have k: "k \<in> set xs" and d: "distinct (map f xs)" by simp_all
    have "f k \<in> f ` set xs" using k by simp
    then have "f k \<noteq> f a" using Cons.prems(1) by auto
    with Cons.IH[OF d k] show ?thesis by simp
  qed
qed

lemma sorted_distinct_keys_unique:
  assumes "distinct (map f xs)" and "mset ys = mset xs" and "sorted (map f ys)"
  shows "ys = sort_key f xs"
proof -
  have "mset (map f ys) = mset (map f xs)" using assms(2) by simp
  then have dy: "distinct (map f ys)" using assms(1) by (metis mset_eq_imp_distinct_iff)
  have sets: "set ys = set xs" using assms(2) by (rule mset_eq_setD)
  have "sort_key f xs = ys"
  proof (rule properties_for_sort_key[OF assms(2)])
    fix k assume k: "k \<in> set ys"
    then have "k \<in> set xs" using sets by simp
    then show "filter (\<lambda>x. f k = f x) ys = filter (\<lambda>x. f k = f x) xs"
      using filter_same_key[OF dy k] filter_same_key[OF assms(1)] by simp
  qed (rule assms(3))
  then show ?thesis by simp
qed

text \<open>
  On a table whose timestamps are pairwise different the library has no choice: the rows
  come out in the one order of their timestamps.
\<close>

lemma sort_values_distinct:
  assumes "distinct (map (\<lambda>r. the_stamp (r c)) (rows df))"
  shows "sort_values L df c = df\<lparr>rows := sort_key (\<lambda>r. the_stamp (r c)) (rows df)\<rparr>"
proof -
  have "rows (sort_values L df c) = sort_key (\<lambda>r. the_stamp (r c)) (rows df)"
    using sorted_distinct_keys_unique[OF assms sort_values_sorts] .
  then show ?thesis by (simp add: sort_values_def Let_def)
qed

text \<open>
  On a table with equal timestamps the order is the library's: two libraries that differ
  only in the order of equal keys give the two rows of one day in different orders.
\<close>

lemma equal_dates_order_is_the_library's:
  "sorted_series stub_library
     (table_of [''date'', ''total''] [[Stamp 0, Num 1], [Stamp 0, Num 2]]) ''date'' ''total''
     = [1, 2]
   \<and> sorted_series (stub_library\<lparr>quicksort_rank := \<lambda>keys i. length keys - i\<rparr>)
     (table_of [''date'', ''total''] [[Stamp 0, Num 1], [Stamp 0, Num 2]]) ''date'' ''total''
     = [2, 1]"
  by (simp add: sorted_series_def sort_values_def column_def table_of_def stub_library_def
      Let_def upt_2)

section \<open>Forecasting\<close>

subsection \<open>The fitted line is a least-squares line\<close>

lemma squared_error_expand:
  "(\<Sum>p\<leftarrow>ps. (snd p - my - a * (fst p - mx) + c)\<^sup>2) =
     (\<Sum>p\<leftarrow>ps. (snd p - my)\<^sup>2)
     - 2 * a * (\<Sum>p\<leftarrow>ps. (fst p - mx) * (snd p - my))
     + a\<^sup>2 * (\<Sum>p\<leftarrow>ps. (fst p - mx)\<^sup>2)
     + 2 * c * ((\<Sum>p\<leftarrow>ps. snd p - my) - a * (\<Sum>p\<leftarrow>ps. fst p - mx))
     + real (length ps) * c\<^sup>2"
  for my mx a c :: real
  by (induction ps) (simp_all add: algebra_simps power2_eq_square)

lemma sum_deviations_zero:
  "(\<Sum>x\<leftarrow>xs. x - mean xs) = (0::real)"
proof (cases "xs = []")
  case True
  then show ?thesis by simp
next
  case False
  have "\<And>m::real. (\<Sum>x\<leftarrow>xs. x - m) = sum_list xs - real (length xs) * m"
    by (induction xs) (simp_all add: algebra_simps)
  then have "(\<Sum>x\<leftarrow>xs. x - mean xs) = sum_list xs - real (length xs) * mean xs" .
  also have "\<dots> = 0" using False by (simp add: mean_def)
  finally show ?thesis .
qed

lemma polyfit1_least_squares:
  assumes "length x = length y"
  shows "squared_error x y (fst (polyfit1 x y)) (snd (polyfit1 x y)) \<le> squared_error x y a b"
proof -
  let ?ps = "zip x y"
  let ?mx = "mean x" and ?my = "mean y"
  define svv where "svv = (\<Sum>p\<leftarrow>?ps. (snd p - ?my)\<^sup>2)"
  define sxy where "sxy = (\<Sum>p\<leftarrow>?ps. (fst p - ?mx) * (snd p - ?my))"
  define sxx where "sxx = (\<Sum>p\<leftarrow>?ps. (fst p - ?mx)\<^sup>2)"
  define n where "n = real (length ?ps)"
  define q where "q = (\<lambda>s. s\<^sup>2 * sxx - 2 * s * sxy)"
  have fsts: "map fst ?ps = x" and snds: "map snd ?ps = y"
    using assms by simp_all
  have su: "(\<Sum>p\<leftarrow>?ps. fst p - ?mx) = 0"
    using sum_deviations_zero[of x] by (subst (asm) fsts[symmetric]) (simp add: o_def)
  have sv: "(\<Sum>p\<leftarrow>?ps. snd p - ?my) = 0"
    using sum_deviations_zero[of y] by (subst (asm) snds[symmetric]) (simp add: o_def)
  have se: "squared_error x y s i = svv + q s + n * (?my - s * ?mx - i)\<^sup>2" for s i
  proof -
    have "squared_error x y s i
        = (\<Sum>p\<leftarrow>?ps. (snd p - ?my - s * (fst p - ?mx) + (?my - s * ?mx - i))\<^sup>2)"
      unfolding squared_error_def
      by (intro arg_cong[where f = sum_list] map_cong refl) (auto simp: algebra_simps)
    also have "\<dots> = svv - 2 * s * sxy + s\<^sup>2 * sxx + n * (?my - s * ?mx - i)\<^sup>2"
      unfolding svv_def sxy_def sxx_def n_def
      by (simp only: squared_error_expand su sv) simp
    finally show ?thesis by (simp add: q_def)
  qed
  have sxx_x: "sum_list (map (\<lambda>a. (a - ?mx)\<^sup>2) x) = sxx"
    unfolding sxx_def by (subst (1) fsts[symmetric]) (simp add: o_def)
  have sxy_xy: "sum_list (map2 (\<lambda>a b. (a - ?mx) * (b - ?my)) x y) = sxy"
    unfolding sxy_def by (simp add: case_prod_unfold)
  have fit: "fst (polyfit1 x y) = sxy / sxx" "snd (polyfit1 x y) = ?my - sxy / sxx * ?mx"
    by (simp_all add: polyfit1_def Let_def sxx_x sxy_xy)
  have nonneg: "0 \<le> sxx" unfolding sxx_def by (rule sum_list_nonneg) auto
  have core: "q (sxy / sxx) \<le> q a"
  proof (cases "sxx = 0")
    case True
    then have "(\<Sum>p\<leftarrow>?ps. (fst p - ?mx)\<^sup>2) = 0" by (simp add: sxx_def)
    moreover have "\<forall>v\<in>set (map (\<lambda>p. (fst p - ?mx)\<^sup>2) ?ps). 0 \<le> v" by auto
    ultimately have "\<forall>v\<in>set (map (\<lambda>p. (fst p - ?mx)\<^sup>2) ?ps). v = 0"
      using sum_list_nonneg_eq_0_iff[of "map (\<lambda>p. (fst p - ?mx)\<^sup>2) ?ps"] by blast
    then have "\<forall>p\<in>set ?ps. fst p - ?mx = 0" by auto
    then have "map (\<lambda>p. (fst p - ?mx) * (snd p - ?my)) ?ps = map (\<lambda>p. 0) ?ps"
      by (intro map_cong refl) simp
    then have "sxy = (\<Sum>p\<leftarrow>?ps. 0::real)" unfolding sxy_def by (simp only:)
    then have "sxy = 0" by simp
    with True show ?thesis by (simp add: q_def)
  next
    case False
    with nonneg have pos: "0 < sxx" by simp
    have "q a - q (sxy / sxx) = (a * sxx - sxy)\<^sup>2 / sxx"
      using False by (simp add: q_def field_simps power2_eq_square)
    also have "\<dots> \<ge> 0" using pos by simp
    finally show ?thesis by simp
  qed
  have "0 \<le> n * (?my - a * ?mx - b)\<^sup>2" by (simp add: n_def)
  with core show ?thesis
    by (simp add: se fit)
qed

subsection \<open>The forecast from the window\<close>

lemma extrapolate_fields:
  "trend_slope (extrapolate rv p) = fst (polyfit1 (arange (length rv)) rv)"
  "confidence_interval (extrapolate rv p) =
     1.96 * np_std (map2 (\<lambda>v xi. v - (fst (polyfit1 (arange (length rv)) rv) * xi
                                       + snd (polyfit1 (arange (length rv)) rv)))
                      rv (arange (length rv)))"
  "length (forecast_data (extrapolate rv p)) = nat p"
  by (simp_all add: extrapolate_def Let_def)

lemma extrapolate_point:
  assumes "i < nat p"
  shows "period (forecast_data (extrapolate rv p) ! i) = i + 1"
    and "forecast (forecast_data (extrapolate rv p) ! i)
           = fst (polyfit1 (arange (length rv)) rv) * real (length rv + i)
             + snd (polyfit1 (arange (length rv)) rv)"
    and "lower_bound (forecast_data (extrapolate rv p) ! i)
           = forecast (forecast_data (extrapolate rv p) ! i)
             - confidence_interval (extrapolate rv p)"
    and "upper_bound (forecast_data (extrapolate rv p) ! i)
           = forecast (forecast_data (extrapolate rv p) ! i)
             + confidence_interval (extrapolate rv p)"
  using assms by (simp_all add: extrapolate_def Let_def nth_enumerate_eq)

lemma valid_rows_columns:
  assumes "valid_rows L f dc vc = Inr valid"
  shows "vc \<in> set (colnames valid)" and "dc \<in> set (colnames valid)"
  using assms
  by (auto simp: valid_rows_def and_then_def parse_dates_def getitem_def dropna_def setcol_def
      split: sum.splits if_splits list.splits)

lemma forecast_columns_numeric:
  assumes "numeric_column f vc = Inr ys" and "vc \<noteq> ''MA_7''" and "vc \<noteq> ''MA_14''"
  shows "\<exists>t. forecast_columns f vc = Inr t \<and> numeric_column t vc = Inr ys"
proof -
  let ?t1 = "setcol f ''MA_7'' (map Num (rolling_mean 7 ys))"
  let ?t2 = "setcol ?t1 ''MA_14'' (map Num (rolling_mean 14 ys))"
  note len = numeric_column_Inr(4)[OF assms(1)] and mem = numeric_column_Inr(2)[OF assms(1)]
  have c1: "column ?t1 vc = column f vc"
    using assms(2) len by (intro column_setcol_other) simp_all
  have n1: "numeric_column ?t1 vc = Inr ys"
    using numeric_column_cong[of ?t1 vc f] c1 mem assms(1) by (simp add: colnames_setcol)
  have len1: "length (rows ?t1) = length (rows f)" using len by (simp add: rows_setcol)
  have c2: "column ?t2 vc = column ?t1 vc"
    using assms(3) len len1 by (intro column_setcol_other) simp_all
  have n2: "numeric_column ?t2 vc = Inr ys"
    using numeric_column_cong[of ?t2 vc ?t1] c2 mem n1 by (simp add: colnames_setcol)
  have "forecast_columns f vc = Inr ?t2"
    by (simp add: forecast_columns_def and_then_def derive_column_def assms(1) n1)
  with n2 show ?thesis by blast
qed

lemma generate_forecast_numeric:
  assumes "valid_rows L (heap w df) dc vc = Inr valid"
    and "10 \<le> length (rows valid)"
    and "list_all is_Num (column valid vc)"
    and "vc \<noteq> ''MA_7''" and "vc \<noteq> ''MA_14''"
  shows "fst (generate_forecast L w df dc vc periods)
           = Inr (Forecast (extrapolate (tail 14 (sorted_series L valid dc vc)) periods))"
proof -
  let ?sorted = "sort_values L valid dc"
  let ?ys = "sorted_series L valid dc vc"
  have "list_all is_Num (column ?sorted vc)"
    using assms(3) by (simp add: column_def rows_sort_values list_all_iff)
  moreover have "vc \<in> set (colnames ?sorted)"
    using valid_rows_columns(1)[OF assms(1)] by (simp add: rows_sort_values)
  ultimately have num: "numeric_column ?sorted vc = Inr ?ys"
    by (simp add: numeric_column_def getitem_def sorted_series_def column_def)
  from forecast_columns_numeric[OF num assms(4,5)] obtain t where
    t: "forecast_columns ?sorted vc = Inr t" and nt: "numeric_column t vc = Inr ?ys"
    by blast
  have len: "length ?ys = length (rows valid)"
    by (simp add: sorted_series_def column_def rows_sort_values)
  then have "2 \<le> length (tail 14 ?ys)"
    using assms(2) by (simp add: length_tail)
  then have "forecast_summary t vc periods = Inr (Forecast (extrapolate (tail 14 ?ys) periods))"
    by (simp add: forecast_summary_def nt Let_def)
  then show ?thesis
    using assms(1,2) t
    by (simp add: generate_forecast_def fst_try_except generate_forecast_body_fst and_then_def)
qed

lemma generate_forecast_few_rows:
  assumes "valid_count L (heap w df) dc vc < 10"
  shows "\<exists>m. fst (generate_forecast L w df dc vc periods) = Inr (Error m)"
  using assms
  by (auto simp: generate_forecast_def fst_try_except generate_forecast_body_fst and_then_def
      valid_count_def split: sum.splits)

text \<open>
  Claim C4, as amended. With fewer than 10 valid rows \<^verbatim>\<open>generate_forecast\<close> returns
  an error. With at least 10 valid rows whose values are all numbers, and a value column
  that is not one of the columns \<^verbatim>\<open>MA_7\<close> and \<^verbatim>\<open>MA_14\<close> that the method writes, it
  returns a forecast from the line that \<^verbatim>\<open>np.polyfit\<close> fits to the window of the
  trailing 14 values of the date-sorted series, rows of equal date in the order in which
  the library's sort leaves them: the line has the least sum of squared residuals among
  all lines, and every forecast period lies on the line, with a lower and an upper bound
  1.96 times the standard deviation of the residuals of the window below and above it.
\<close>

theorem forecast_fit_and_band:
  "(valid_count L (heap w df) date_column value_column < 10 \<longrightarrow>
      (\<exists>m. fst (generate_forecast L w df date_column value_column periods) = Inr (Error m)))
   \<and> (\<forall>valid. valid_rows L (heap w df) date_column value_column = Inr valid
         \<and> 10 \<le> length (rows valid)
         \<and> list_all is_Num (column valid value_column)
         \<and> value_column \<noteq> ''MA_7'' \<and> value_column \<noteq> ''MA_14'' \<longrightarrow>
       (let window = tail 14 (sorted_series L valid date_column value_column);
            x = arange (length window);
            slope = fst (polyfit1 x window);
            intercept = snd (polyfit1 x window);
            sigma = np_std (map2 (\<lambda>v xi. v - (slope * xi + intercept)) window x)
        in \<exists>r. fst (generate_forecast L w df date_column value_column periods)
                  = Inr (Forecast r)
             \<and> length window = min 14 (length (rows valid))
             \<and> trend_slope r = slope
             \<and> (\<forall>a b. squared_error x window slope intercept \<le> squared_error x window a b)
             \<and> confidence_interval r = 1.96 * sigma
             \<and> length (forecast_data r) = nat periods
             \<and> (\<forall>i<nat periods.
                  period (forecast_data r ! i) = i + 1
                \<and> forecast (forecast_data r ! i) = slope * real (length window + i) + intercept
                \<and> lower_bound (forecast_data r ! i) = forecast (forecast_data r ! i) - 1.96 * sigma
                \<and> upper_bound (forecast_data r ! i)
                    = forecast (forecast_data r ! i) + 1.96 * sigma)))"
proof (intro conjI impI allI)
  assume "valid_count L (heap w df) date_column value_column < 10"
  then show "\<exists>m. fst (generate_forecast L w df date_column value_column periods) = Inr (Error m)"
    by (rule generate_forecast_few_rows)
next
  fix valid
  assume a: "valid_rows L (heap w df) date_column value_column = Inr valid
         \<and> 10 \<le> length (rows valid)
         \<and> list_all is_Num (column valid value_column)
         \<and> value_column \<noteq> ''MA_7'' \<and> value_column \<noteq> ''MA_14''"
  let ?window = "tail 14 (sorted_series L valid date_column value_column)"
  let ?x = "arange (length ?window)"
  have r: "fst (generate_forecast L w df date_column value_column periods)
      = Inr (Forecast (extrapolate ?window periods))"
    using a by (intro generate_forecast_numeric) simp_all
  have len: "length ?window = min 14 (length (rows valid))"
    by (simp add: length_tail sorted_series_def column_def rows_sort_values)
  have ls: "\<forall>a b. squared_error ?x ?window (fst (polyfit1 ?x ?window)) (snd (polyfit1 ?x ?window))
      \<le> squared_error ?x ?window a b"
    by (intro allI polyfit1_least_squares) (simp add: arange_def)
  show "let window = ?window;
            x = arange (length window);
            slope = fst (polyfit1 x window);
            intercept = snd (polyfit1 x window);
            sigma = np_std (map2 (\<lambda>v xi. v - (slope * xi + intercept)) window x)
        in \<exists>r. fst (generate_forecast L w df date_column value_column periods)
                  = Inr (Forecast r)
             \<and> length window = min 14 (length (rows valid))
             \<and> trend_slope r = slope
             \<and> (\<forall>a b. squared_error x window slope intercept \<le> squared_error x window a b)
             \<and> confidence_interval r = 1.96 * sigma
             \<and> length (forecast_data r) = nat periods
             \<and> (\<forall>i<nat periods.
                  period (forecast_data r ! i) = i + 1
                \<and> forecast (forecast_data r ! i) = slope * real (length window + i) + intercept
                \<and> lower_bound (forecast_data r ! i) = forecast (forecast_data r ! i) - 1.96 * sigma
                \<and> upper_bound (forecast_data r ! i)
                    = forecast (forecast_data r ! i) + 1.96 * sigma)"
    unfolding Let_def
    apply (rule exI[of _ "extrapolate ?window periods"])
    using r len ls
    by (simp add: extrapolate_fields extrapolate_point)
qed

lemma upt_10: "[0..<10] = [0, 1, 2, 3, 4, 5, 6, 7, 8, 9]"
  by (simp add: upt_rec)

theorem forecast_fit_and_band_witness:
  "\<exists>r. fst (generate_forecast stub_library
              (world_with (series_table ''total'' [1, 2, 3, 4, 5, 6, 7, 8, 9, 10])) 0
              ''date'' ''total'' 3) = Inr (Forecast r)
      \<and> length (forecast_data r) = 3
      \<and> lower_bound (forecast_data r ! 0) = forecast (forecast_data r ! 0) - confidence_interval r
      \<and> upper_bound (forecast_data r ! 0) = forecast (forecast_data r ! 0) + confidence_interval r"
proof -
  let ?w = "world_with (series_table ''total'' [1, 2, 3, 4, 5, 6, 7, 8, 9, 10])"
  have "\<exists>valid. valid_rows stub_library (heap ?w 0) ''date'' ''total'' = Inr valid
          \<and> 10 \<le> length (rows valid) \<and> list_all is_Num (column valid ''total'')
          \<and> ''total'' \<noteq> ''MA_7'' \<and> ''total'' \<noteq> ''MA_14''"
    by (simp add: run_table_defs)
  then obtain valid where v: "valid_rows stub_library (heap ?w 0) ''date'' ''total'' = Inr valid
          \<and> 10 \<le> length (rows valid) \<and> list_all is_Num (column valid ''total'')
          \<and> ''total'' \<noteq> ''MA_7'' \<and> ''total'' \<noteq> ''MA_14''"
    by (elim exE)
  from forecast_fit_and_band[of stub_library ?w 0 "''date''" "''total''" 3]
  have "\<forall>valid. valid_rows stub_library (heap ?w 0) ''date'' ''total'' = Inr valid
         \<and> 10 \<le> length (rows valid)
         \<and> list_all is_Num (column valid ''total'')
         \<and> ''total'' \<noteq> ''MA_7'' \<and> ''total'' \<noteq> ''MA_14'' \<longrightarrow>
       (let window = tail 14 (sorted_series stub_library valid ''date'' ''total'');
            x = arange (length window);
            slope = fst (polyfit1 x window);
            intercept = snd (polyfit1 x window);
            sigma = np_std (map2 (\<lambda>v xi. v - (slope * xi + intercept)) window x)
        in \<exists>r. fst (generate_forecast stub_library ?w 0 ''date'' ''total'' 3)
                  = Inr (Forecast r)
             \<and> length window = min 14 (length (rows valid))
             \<and> trend_slope r = slope
             \<and> (\<forall>a b. squared_error x window slope intercept \<le> squared_error x window a b)
             \<and> confidence_interval r = 1.96 * sigma
             \<and> length (forecast_data r) = nat 3
             \<and> (\<forall>i<nat 3.
                  period (forecast_data r ! i) = i + 1
                \<and> forecast (forecast_data r ! i) = slope * real (length window + i) + intercept
                \<and> lower_bound (forecast_data r ! i) = forecast (forecast_data r ! i) - 1.96 * sigma
                \<and> upper_bound (forecast_data r ! i)
                    = forecast (forecast_data r ! i) + 1.96 * sigma))"
    by (rule conjunct2)
  from this[rule_format, OF v] obtain r where
    r: "fst (generate_forecast stub_library ?w 0 ''date'' ''total'' 3) = Inr (Forecast r)"
    and n: "length (forecast_data r) = nat 3"
    and ci: "confidence_interval r = 1.96 * np_std (map2 (\<lambda>v xi. v -
               (fst (polyfit1 (arange (length (tail 14 (sorted_series stub_library valid ''date'' ''total''))))
                      (tail 14 (sorted_series stub_library valid ''date'' ''total''))) * xi
                + snd (polyfit1 (arange (length (tail 14 (sorted_series stub_library valid ''date'' ''total''))))
                      (tail 14 (sorted_series stub_library valid ''date'' ''total'')))))
               (tail 14 (sorted_series stub_library valid ''date'' ''total''))
               (arange (length (tail 14 (sorted_series stub_library valid ''date'' ''total'')))))"
    and pts: "\<forall>i<nat 3.
                  period (forecast_data r ! i) = i + 1
                \<and> forecast (forecast_data r ! i)
                    = fst (polyfit1 (arange (length (tail 14 (sorted_series stub_library valid ''date'' ''total''))))
                      (tail 14 (sorted_series stub_library valid ''date'' ''total'')))
                      * real (length (tail 14 (sorted_series stub_library valid ''date'' ''total'')) + i)
                      + snd (polyfit1 (arange (length (tail 14 (sorted_series stub_library valid ''date'' ''total''))))
                      (tail 14 (sorted_series stub_library valid ''date'' ''total'')))
                \<and> lower_bound (forecast_data r ! i) = forecast (forecast_data r ! i)
                    - 1.96 * np_std (map2 (\<lambda>v xi. v -
               (fst (polyfit1 (arange (length (tail 14 (sorted_series stub_library valid ''date'' ''total''))))
                      (tail 14 (sorted_series stub_library valid ''date'' ''total''))) * xi
                + snd (polyfit1 (arange (length (tail 14 (sorted_series stub_library valid ''date'' ''total''))))
                      (tail 14 (sorted_series stub_library valid ''date'' ''total'')))))
               (tail 14 (sorted_series stub_library valid ''date'' ''total''))
               (arange (length (tail 14 (sorted_series stub_library valid ''date'' ''total'')))))
                \<and> upper_bound (forecast_data r ! i) = forecast (forecast_data r ! i)
                    + 1.96 * np_std (map2 (\<lambda>v xi. v -
               (fst (polyfit1 (arange (length (tail 14 (sorted_series stub_library valid ''date'' ''total''))))
                      (tail 14 (sorted_series stub_library valid ''date'' ''total''))) * xi
                + snd (polyfit1 (arange (length (tail 14 (sorted_series stub_library valid ''date'' ''total''))))
                      (tail 14 (sorted_series stub_library valid ''date'' ''total'')))))
               (tail 14 (sorted_series stub_library valid ''date'' ''total''))
               (arange (length (tail 14 (sorted_series stub_library valid ''date'' ''total'')))))"
    unfolding Let_def by (elim exE conjE)
  from pts have "lower_bound (forecast_data r ! 0) = forecast (forecast_data r ! 0)
                    - confidence_interval r
      \<and> upper_bound (forecast_data r ! 0) = forecast (forecast_data r ! 0)
                    + confidence_interval r"
    unfolding ci by simp
  with r n show ?thesis by (intro exI[of _ r]) simp
qed

text \<open>
  The claim as it was stated fails on two tables of 10 valid rows. Where the values are
  texts, the method returns an error. Where the value column is labelled \<^verbatim>\<open>MA_7\<close>,
  the method overwrites it with its moving average before it fits the line: for the
  values 0, ..., 0, 10 the reported slope is 6/77, and the slope of the least-squares line
  through the trailing values of the series is 6/11.
\<close>

theorem forecast_on_text_or_overwritten_values:
  "valid_count stub_library
      (heap (world_with (table_of [''date'', ''total'']
         [[Stamp 0, Txt ''a''], [Stamp 1, Txt ''a''], [Stamp 2, Txt ''a''], [Stamp 3, Txt ''a''],
          [Stamp 4, Txt ''a''], [Stamp 5, Txt ''a''], [Stamp 6, Txt ''a''], [Stamp 7, Txt ''a''],
          [Stamp 8, Txt ''a''], [Stamp 9, Txt ''a'']])) 0) ''date'' ''total'' = 10
   \<and> fst (generate_forecast stub_library
        (world_with (table_of [''date'', ''total'']
         [[Stamp 0, Txt ''a''], [Stamp 1, Txt ''a''], [Stamp 2, Txt ''a''], [Stamp 3, Txt ''a''],
          [Stamp 4, Txt ''a''], [Stamp 5, Txt ''a''], [Stamp 6, Txt ''a''], [Stamp 7, Txt ''a''],
          [Stamp 8, Txt ''a''], [Stamp 9, Txt ''a'']])) 0 ''date'' ''total'' 30)
       = Inr (Error ''Forecasting failed: No numeric types to aggregate'')
   \<and> (\<exists>valid r.
         valid_rows stub_library
           (heap (world_with (series_table ''MA_7'' [0, 0, 0, 0, 0, 0, 0, 0, 0, 10])) 0)
           ''date'' ''MA_7'' = Inr valid
       \<and> sorted_series stub_library valid ''date'' ''MA_7'' = [0, 0, 0, 0, 0, 0, 0, 0, 0, 10]
       \<and> fst (polyfit1 (arange 10) (tail 14 [0, 0, 0, 0, 0, 0, 0, 0, 0, 10])) = 6 / 11
       \<and> fst (generate_forecast stub_library
                (world_with (series_table ''MA_7'' [0, 0, 0, 0, 0, 0, 0, 0, 0, 10])) 0
                ''date'' ''MA_7'' 30) = Inr (Forecast r)
       \<and> trend_slope r = 6 / 77)"
proof (intro conjI)
  let ?t = "table_of [''date'', ''total'']
         [[Stamp 0, Txt ''a''], [Stamp 1, Txt ''a''], [Stamp 2, Txt ''a''], [Stamp 3, Txt ''a''],
          [Stamp 4, Txt ''a''], [Stamp 5, Txt ''a''], [Stamp 6, Txt ''a''], [Stamp 7, Txt ''a''],
          [Stamp 8, Txt ''a''], [Stamp 9, Txt ''a'']]"
  show "valid_count stub_library (heap (world_with ?t) 0) ''date'' ''total'' = 10"
    by (simp add: valid_count_def run_table_defs)
  show "fst (generate_forecast stub_library (world_with ?t) 0 ''date'' ''total'' 30)
       = Inr (Error ''Forecasting failed: No numeric types to aggregate'')"
    by (simp add: generate_forecast_def fst_try_except generate_forecast_body_fst
        run_table_defs forecast_columns_def str_exn_def)
  show "\<exists>valid r.
         valid_rows stub_library
           (heap (world_with (series_table ''MA_7'' [0, 0, 0, 0, 0, 0, 0, 0, 0, 10])) 0)
           ''date'' ''MA_7'' = Inr valid
       \<and> sorted_series stub_library valid ''date'' ''MA_7'' = [0, 0, 0, 0, 0, 0, 0, 0, 0, 10]
       \<and> fst (polyfit1 (arange 10) (tail 14 [0, 0, 0, 0, 0, 0, 0, 0, 0, 10])) = 6 / 11
       \<and> fst (generate_forecast stub_library
                (world_with (series_table ''MA_7'' [0, 0, 0, 0, 0, 0, 0, 0, 0, 10])) 0
                ''date'' ''MA_7'' 30) = Inr (Forecast r)
       \<and> trend_slope r = 6 / 77"
    by (simp add: generate_forecast_def fst_try_except generate_forecast_body_fst
        run_table_defs forecast_columns_def forecast_summary_def sorted_series_def
        extrapolate_def polyfit1_def arange_def rolling_mean_def tail_def mean_def
        Let_def upt_10 power2_eq_square)
qed

end
